theory Spec2Isabelle
  imports Complex_Main "HOL-Library.Char_ord" "HOL-Library.List_Lexorder" "HOL-Library.AList"
begin

section \<open>Python values, errors and the external collaborators\<close>

text \<open>
  The model follows \<^verbatim>\<open>neo/io/nixio.py\<close>. Every exception of the source is a value
  of \<open>py_error\<close>; a function that can raise returns \<open>py_error + 'a\<close>.
\<close>

datatype py_error =
    KeyError | IndexError | AssertionError | AttributeError | TypeError | ValueError
  | NameError | DuplicateName

text \<open>
  A unit of the \<^verbatim>\<open>quantities\<close> package is built in the source in two ways only
  (see \<^verbatim>\<open>create_quantity\<close>): from a unit name, or as \<^verbatim>\<open>pq.CompoundUnit(name)\<close>.
  The dimensionality string of a compound unit is its name in parentheses.
\<close>

datatype pq_unit = Unit string | CompoundUnit string

fun dimensionality_str :: "pq_unit \<Rightarrow> string" where
  "dimensionality_str (Unit s) = s"
| "dimensionality_str (CompoundUnit s) = ''('' @ s @ '')''"

text \<open>Python's \<^verbatim>\<open>s.strip("()")\<close>.\<close>

definition strip_parens :: "string \<Rightarrow> string" where
  "strip_parens s =
     rev (dropWhile (\<lambda>c. c = CHR ''('' \<or> c = CHR '')'')
       (rev (dropWhile (\<lambda>c. c = CHR ''('' \<or> c = CHR '')'') s)))"

text \<open>
  \<^verbatim>\<open>units_to_string\<close>: the argument is always the \<^verbatim>\<open>.units\<close> of a quantity, whose
  magnitude (the \<^verbatim>\<open>scaling\<close> of the source) is 1, so the branch that formats a
  scaling factor is never taken and the function returns the dimensionality string,
  stripped of parentheses when it starts with one.
\<close>

definition units_to_string :: "pq_unit \<Rightarrow> string" where
  "units_to_string pqunit =
     (let dim = dimensionality_str pqunit
      in if dim \<noteq> [] \<and> hd dim = CHR ''('' then strip_parens dim else dim)"

text \<open>A \<^verbatim>\<open>datetime\<close>: its POSIX seconds and its microseconds.\<close>

record datetime =
  posix_seconds :: int
  microsecond :: nat

definition calculate_timestamp :: "datetime \<Rightarrow> int" where
  "calculate_timestamp dt = posix_seconds dt"

definition fromtimestamp :: "int \<Rightarrow> datetime" where
  "fromtimestamp t = \<lparr>posix_seconds = t, microsecond = 0\<rparr>"

text \<open>
  The Python values an annotation or a metadata property can hold. \<open>PyQuantity m u\<close> is
  a \<^verbatim>\<open>pq.Quantity\<close> with magnitude \<open>m\<close> (a number, or a \<open>PyList\<close> for an array);
  \<open>PyList\<close> stands for lists, tuples and arrays of one or more dimensions;
  \<open>PyArray0\<close> is a zero-dimensional numpy array and \<open>PyNumpy\<close> a numpy scalar.
\<close>

datatype pyval =
    PyNone
  | PyBool bool
  | PyInt int
  | PyFloat real
  | PyStr string
  | PyBytes string
  | PyDatetime datetime
  | PyQuantity pyval pq_unit
  | PyList "pyval list"
  | PyArray0 pyval
  | PyNumpy pyval

text \<open>What is fed to the MD5 object: the text of a value, or the buffer of an array.\<close>

datatype hash_chunk = StrUpdate pyval | DUpdate pyval

text \<open>
  The collaborators that are not part of the repository, as one record of functions:
  Python's \<^verbatim>\<open>str\<close> on values that are not text, \<^verbatim>\<open>md5(...).hexdigest()\<close> of what was
  fed, the \<open>n\<close>-th value of \<^verbatim>\<open>uuid4().hex\<close>, and the factor by which the quantities
  package rescales a unit to the unit of a given name (\<open>None\<close>: not convertible).
\<close>

record externals =
  py_str :: "pyval \<Rightarrow> string"
  md5_hexdigest :: "hash_chunk list \<Rightarrow> string"
  uuid4_hex :: "nat \<Rightarrow> string"
  rescale_factor :: "pq_unit \<Rightarrow> string \<Rightarrow> real option"

definition stringify :: "externals \<Rightarrow> pyval \<Rightarrow> pyval" where
  "stringify E v =
     (case v of
        PyNone \<Rightarrow> PyNone
      | PyBytes s \<Rightarrow> PyStr s
      | PyStr s \<Rightarrow> PyStr s
      | _ \<Rightarrow> PyStr (py_str E v))"

text \<open>
  \<^verbatim>\<open>create_quantity(values, unitstr)\<close>: a quantity is the pair of its magnitude and its
  unit.
\<close>

type_synonym 'a quantity = "'a \<times> pq_unit"

definition create_quantity :: "'a \<Rightarrow> string \<Rightarrow> 'a quantity" where
  "create_quantity vals unitstr =
     (if CHR ''*'' \<in> set unitstr then (vals, CompoundUnit unitstr)
      else (vals, Unit unitstr))"

text \<open>Decimal text of a natural number, as \<^verbatim>\<open>"{}".format(idx)\<close> gives it.\<close>

fun str_nat :: "nat \<Rightarrow> string" where
  "str_nat n =
     (if n < 10 then [char_of (48 + n)]
      else str_nat (n div 10) @ [char_of (48 + n mod 10)])"

declare str_nat.simps [simp del]

text \<open>\<^verbatim>\<open>s.split(sep)\<close> for a one-character separator, and \<^verbatim>\<open>sep.join(parts)\<close>.\<close>

fun py_split :: "char \<Rightarrow> string \<Rightarrow> string list" where
  "py_split sep [] = [[]]"
| "py_split sep (c # cs) =
     (if c = sep then [] # py_split sep cs
      else (case py_split sep cs of
              [] \<Rightarrow> [[c]]
            | w # ws \<Rightarrow> (c # w) # ws))"

fun py_join :: "string \<Rightarrow> string list \<Rightarrow> string" where
  "py_join sep [] = []"
| "py_join sep [w] = w"
| "py_join sep (w # ws) = w @ sep @ py_join sep ws"

text \<open>Python indexing of a sequence: a negative index counts from the end.\<close>

definition py_index :: "'a list \<Rightarrow> int \<Rightarrow> py_error + 'a" where
  "py_index xs i =
     (if 0 \<le> i \<and> i < int (length xs) then Inr (xs ! nat i)
      else if i < 0 \<and> - int (length xs) \<le> i then Inr (xs ! nat (int (length xs) + i))
      else Inl IndexError)"

fun mapM :: "('a \<Rightarrow> 'e + 'b) \<Rightarrow> 'a list \<Rightarrow> 'e + 'b list" where
  "mapM f [] = Inr []"
| "mapM f (x # xs) =
     (case f x of
        Inl e \<Rightarrow> Inl e
      | Inr y \<Rightarrow> (case mapM f xs of Inl e \<Rightarrow> Inl e | Inr ys \<Rightarrow> Inr (y # ys)))"

section \<open>The NIX store\<close>

text \<open>
  The container store is the \<^verbatim>\<open>nixio\<close> library, which is not part of the repository.
  It is modelled at its interface: named entities in ordered containers, metadata
  sections with typed properties, data arrays with dimensions, and links by name.
  A metadata section is identified by its path of names from the root of the file.
\<close>

datatype nix_value = VBool bool | VInt int | VFloat real | VStr string

text \<open>\<^verbatim>\<open>nix.Value(x)\<close> accepts booleans, numbers and text only.\<close>

fun nix_Value :: "pyval \<Rightarrow> py_error + nix_value" where
  "nix_Value (PyBool b) = Inr (VBool b)"
| "nix_Value (PyInt i) = Inr (VInt i)"
| "nix_Value (PyFloat x) = Inr (VFloat x)"
| "nix_Value (PyStr s) = Inr (VStr s)"
| "nix_Value v = Inl TypeError"

fun value_of :: "nix_value \<Rightarrow> pyval" where
  "value_of (VBool b) = PyBool b"
| "value_of (VInt i) = PyInt i"
| "value_of (VFloat x) = PyFloat x"
| "value_of (VStr s) = PyStr s"

record property =
  prop_values :: "nix_value list"
  prop_unit :: "string option"

record nix_section =
  sec_name :: string
  sec_type :: string
  props :: "(string \<times> property) list"

type_synonym sec_ref = "string list"

datatype dimension =
    SampledDimension (sampling_interval: real) (dim_unit: "string option")
      (dim_offset: real) (dim_label: "string option")
  | RangeDimension (ticks: "real list") (dim_unit: "string option")
      (dim_label: "string option")
  | SetDimension (labels: "string list")

datatype ndarray = A1 "real list" | A2 "real list list" | A3 "real list list list"

record data_array =
  da_name :: string
  da_type :: string
  da_definition :: "string option"
  da_unit :: "string option"
  da_data :: ndarray
  da_dimensions :: "dimension list"
  da_metadata :: "sec_ref option"
  da_sources :: "string list"

record multi_tag =
  mt_name :: string
  mt_type :: string
  mt_definition :: "string option"
  mt_positions :: string
  mt_extents :: "string option"
  mt_features :: "string list"
  mt_metadata :: "sec_ref option"
  mt_references :: "string list"
  mt_sources :: "string list"

record group =
  g_name :: string
  g_type :: string
  g_definition :: "string option"
  g_created_at :: int
  g_metadata :: "sec_ref option"
  g_data_arrays :: "string list"
  g_multi_tags :: "string list"

datatype source =
  Source (src_name: string) (src_type: string) (src_definition: "string option")
    (src_metadata: "sec_ref option") (src_sources: "source list")

record nix_block =
  b_name :: string
  b_type :: string
  b_definition :: "string option"
  b_created_at :: int
  b_metadata :: "sec_ref option"
  b_groups :: "group list"
  b_data_arrays :: "data_array list"
  b_multi_tags :: "multi_tag list"
  b_sources :: "source list"

text \<open>
  The file: its blocks, its metadata sections by path, and the clock that stamps
  \<^verbatim>\<open>created_at\<close> on a new entity.
\<close>

record nix_file =
  blocks :: "nix_block list"
  sections :: "sec_ref \<rightharpoonup> nix_section"
  clock :: int

definition find_block :: "nix_file \<Rightarrow> string \<Rightarrow> nix_block option" where
  "find_block f n = find (\<lambda>b. b_name b = n) (blocks f)"

definition find_da :: "nix_block \<Rightarrow> string \<Rightarrow> data_array option" where
  "find_da b n = find (\<lambda>d. da_name d = n) (b_data_arrays b)"

definition find_mt :: "nix_block \<Rightarrow> string \<Rightarrow> multi_tag option" where
  "find_mt b n = find (\<lambda>m. mt_name m = n) (b_multi_tags b)"

text \<open>The entities a group links to, resolved in its block.\<close>

definition group_data_arrays :: "nix_block \<Rightarrow> group \<Rightarrow> data_array list" where
  "group_data_arrays b g = List.map_filter (find_da b) (g_data_arrays g)"

definition group_multi_tags :: "nix_block \<Rightarrow> group \<Rightarrow> multi_tag list" where
  "group_multi_tags b g = List.map_filter (find_mt b) (g_multi_tags g)"

definition metadata_of :: "nix_file \<Rightarrow> sec_ref option \<Rightarrow> nix_section option" where
  "metadata_of f r = (case r of None \<Rightarrow> None | Some p \<Rightarrow> sections f p)"

section \<open>The Neo objects\<close>

text \<open>
  The classes of \<^verbatim>\<open>neo.core\<close>, with the attributes the IO reads and writes. The
  containers are parametric in how they hold their leaves: by address into a heap
  where the source shares and mutates them (writing), by value where it builds new
  objects (reading). A signal is the pair of its matrix (one row per sample, one
  column per channel) and its unit.
\<close>

record neo_base =
  name :: "string option"
  description :: "string option"
  annotations :: "(string \<times> pyval) list"

record analogsignal = neo_base +
  signal :: "real list list quantity"
  t_start :: "real quantity"
  sampling_period :: "real quantity"

record irregularlysampledsignal = neo_base +
  ir_signal :: "real list list quantity"
  ir_times :: "real list quantity"

record event = neo_base +
  ev_times :: "real list quantity"
  ev_labels :: "string list"

record epoch = neo_base +
  ep_times :: "real list quantity"
  ep_durations :: "real list quantity"
  ep_labels :: "string list"

record spiketrain = neo_base +
  st_times :: "real list quantity"
  st_t_start :: pyval
  st_t_stop :: pyval
  st_waveforms :: "real list list list quantity option"
  st_sampling_period :: "real quantity option"
  st_left_sweep :: "pyval option"

datatype leaf =
    AnalogSignal analogsignal
  | IrregularlySampledSignal irregularlysampledsignal
  | Event event
  | Epoch epoch
  | SpikeTrain spiketrain

record 'r segment = neo_base +
  seg_rec_datetime :: "datetime option"
  seg_file_datetime :: "datetime option"
  analogsignals :: "'r list"
  irregularlysampledsignals :: "'r list"
  events :: "'r list"
  epochs :: "'r list"
  spiketrains :: "'r list"

record 'r neo_unit = neo_base +
  unit_spiketrains :: "'r list"

record 'r channelindex = neo_base +
  chx_index :: "int list"
  channel_names :: "pyval list"
  channel_ids :: "int list"
  coordinates :: "real list list quantity option"
  chx_analogsignals :: "'r list"
  chx_irregularlysampledsignals :: "'r list"
  units :: "'r neo_unit list"

record 'r block = neo_base +
  rec_datetime :: "datetime option"
  file_datetime :: "datetime option"
  segments :: "'r segment list"
  channel_indexes :: "'r channelindex list"

section \<open>Reading\<close>

definition py_quantity :: "pyval quantity \<Rightarrow> pyval" where
  "py_quantity q = PyQuantity (fst q) (snd q)"

text \<open>
  One metadata property as \<^verbatim>\<open>_nix_attr_to_neo\<close> converts it: a quantity when the
  property has a unit, and a list of one value collapses to the value.
\<close>

definition prop_to_neo :: "property \<Rightarrow> pyval" where
  "prop_to_neo p =
     (let vals = map value_of (prop_values p)
      in case prop_unit p of
           None \<Rightarrow> (case vals of [v] \<Rightarrow> v | _ \<Rightarrow> PyList vals)
         | Some u \<Rightarrow>
             if u = [] then (case vals of [v] \<Rightarrow> v | _ \<Rightarrow> PyList vals)
             else (case vals of
                     [v] \<Rightarrow> py_quantity (create_quantity v u)
                   | _ \<Rightarrow> py_quantity (create_quantity (PyList vals) u)))"

fun datetime_fromtimestamp :: "pyval \<Rightarrow> py_error + datetime" where
  "datetime_fromtimestamp (PyInt i) = Inr (fromtimestamp i)"
| "datetime_fromtimestamp (PyFloat x) =
     Inr \<lparr>posix_seconds = \<lfloor>x\<rfloor>, microsecond = nat \<lfloor>(x - of_int \<lfloor>x\<rfloor>) * 1000000\<rfloor>\<rparr>"
| "datetime_fromtimestamp v = Inl TypeError"

definition nix_attr_to_neo ::
  "externals \<Rightarrow> nix_file \<Rightarrow> string \<Rightarrow> string option \<Rightarrow> sec_ref option
     \<Rightarrow> py_error + (string \<times> pyval) list" where
  "nix_attr_to_neo E f nm defn md =
     (let a0 = [(''nix_name'', PyStr nm),
                (''description'', stringify E (case defn of None \<Rightarrow> PyNone | Some d \<Rightarrow> PyStr d))];
          a1 = (case metadata_of f md of
                  None \<Rightarrow> a0
                | Some sec \<Rightarrow>
                    foldl (\<lambda>a kp. AList.update (fst kp) (prop_to_neo (snd kp)) a) a0 (props sec));
          a2 = AList.update ''name''
                 (stringify E (case map_of a1 ''neo_name'' of None \<Rightarrow> PyNone | Some v \<Rightarrow> v)) a1
      in case map_of a2 ''file_datetime'' of
           None \<Rightarrow> Inr a2
         | Some v \<Rightarrow>
             (case datetime_fromtimestamp v of
                Inl e \<Rightarrow> Inl e
              | Inr d \<Rightarrow> Inr (AList.update ''file_datetime'' (PyDatetime d) a2)))"

text \<open>
  The constructors of \<^verbatim>\<open>neo.core\<close> take \<^verbatim>\<open>name\<close> and \<^verbatim>\<open>description\<close> (and the
  other keywords in \<open>reserved\<close>) as attributes and every other keyword as an
  annotation. A keyword in \<open>clash\<close> is one the call already passes, or one whose
  effect on the constructor is not modelled: the call is taken to raise.
\<close>

definition attrs_str :: "(string \<times> pyval) list \<Rightarrow> string \<Rightarrow> string option" where
  "attrs_str attrs k = (case map_of attrs k of Some (PyStr s) \<Rightarrow> Some s | _ \<Rightarrow> None)"

definition neo_kwargs ::
  "string list \<Rightarrow> string list \<Rightarrow> (string \<times> pyval) list \<Rightarrow> py_error + neo_base" where
  "neo_kwargs clash reserved attrs =
     (if list_ex (\<lambda>k. map_of attrs k \<noteq> None) clash then Inl TypeError
      else Inr \<lparr>name = attrs_str attrs ''name'',
                description = attrs_str attrs ''description'',
                annotations =
                  filter (\<lambda>kv. fst kv \<notin> set ([''name'', ''description'', ''file_origin''] @ reserved))
                    attrs\<rparr>)"

definition has_time_label :: "dimension \<Rightarrow> bool" where
  "has_time_label d =
     (case d of SetDimension ls \<Rightarrow> False | _ \<Rightarrow> dim_label d = Some ''time'')"

definition get_time_dimension :: "data_array \<Rightarrow> dimension option" where
  "get_time_dimension obj = find has_time_label (da_dimensions obj)"

text \<open>
  \<^verbatim>\<open>np.array([d[:] for d in nix_da_group]).transpose()\<close>: the arrays are stacked as
  the rows of a matrix, which needs one-dimensional arrays of one length, and the
  matrix is transposed.
\<close>

fun row_of :: "ndarray \<Rightarrow> py_error + real list" where
  "row_of (A1 xs) = Inr xs"
| "row_of a = Inl ValueError"

definition stack_rows :: "ndarray list \<Rightarrow> py_error + real list list" where
  "stack_rows ds =
     (case mapM row_of ds of
        Inl e \<Rightarrow> Inl e
      | Inr rows \<Rightarrow>
          if list_all (\<lambda>r. length r = length (hd rows)) rows then Inr rows
          else Inl ValueError)"

text \<open>
  \<^verbatim>\<open>np.transpose\<close> of a matrix given as the list of its rows. A matrix without rows is
  the empty list whatever its number of columns, so a signal without samples is
  written as no array at all, where the source writes one empty array per channel;
  the theorems below are about signals that have at least one sample.
\<close>

definition np_transpose :: "real list list \<Rightarrow> real list list" where
  "np_transpose m = transpose m"

fun scalar_quantity :: "pyval \<Rightarrow> py_error + real quantity" where
  "scalar_quantity (PyQuantity (PyFloat x) u) = Inr (x, u)"
| "scalar_quantity (PyQuantity (PyInt i) u) = Inr (of_int i, u)"
| "scalar_quantity v = Inl TypeError"

definition nix_to_neo_analogsignal ::
  "externals \<Rightarrow> nix_file \<Rightarrow> data_array list \<Rightarrow> py_error + analogsignal" where
  "nix_to_neo_analogsignal E f nix_da_group =
     (case sort_key da_name nix_da_group of
        [] \<Rightarrow> Inl IndexError
      | d0 # ds \<Rightarrow>
     (case nix_attr_to_neo E f (da_name d0) (da_definition d0) (da_metadata d0) of
        Inl e \<Rightarrow> Inl e
      | Inr attrs0 \<Rightarrow>
     (case metadata_of f (da_metadata d0) of
        None \<Rightarrow> Inl AttributeError
      | Some metadata \<Rightarrow>
     (case da_unit d0 of
        None \<Rightarrow> Inl TypeError
      | Some unit \<Rightarrow>
     (case stack_rows (map da_data (d0 # ds)) of
        Inl e \<Rightarrow> Inl e
      | Inr rows \<Rightarrow>
     (case get_time_dimension d0 of
        Some (SampledDimension interval tunit offset lbl) \<Rightarrow>
          (case tunit of
             None \<Rightarrow> Inl TypeError
           | Some tu \<Rightarrow>
          (let neo_attrs = AList.update ''nix_name'' (PyStr (sec_name metadata)) attrs0 in
           case (case map_of neo_attrs ''t_start'' of
                   Some v \<Rightarrow> scalar_quantity v
                 | None \<Rightarrow> Inr (create_quantity offset tu)) of
             Inl e \<Rightarrow> Inl e
           | Inr tstart \<Rightarrow>
          (case neo_kwargs [''signal'', ''sampling_period'', ''units'', ''dtype'', ''copy'',
                            ''sampling_rate''] []
                  (AList.delete ''t_start'' neo_attrs) of
             Inl e \<Rightarrow> Inl e
           | Inr base \<Rightarrow>
               Inr \<lparr>name = name base, description = description base,
                     annotations = annotations base,
                     signal = create_quantity (np_transpose rows) unit,
                     t_start = tstart,
                     sampling_period = create_quantity interval tu\<rparr>)))
      | _ \<Rightarrow> Inl AttributeError))))))"

definition nix_to_neo_irregularlysampledsignal ::
  "externals \<Rightarrow> nix_file \<Rightarrow> data_array list \<Rightarrow> py_error + irregularlysampledsignal" where
  "nix_to_neo_irregularlysampledsignal E f nix_da_group =
     (case sort_key da_name nix_da_group of
        [] \<Rightarrow> Inl IndexError
      | d0 # ds \<Rightarrow>
     (case nix_attr_to_neo E f (da_name d0) (da_definition d0) (da_metadata d0) of
        Inl e \<Rightarrow> Inl e
      | Inr attrs0 \<Rightarrow>
     (case metadata_of f (da_metadata d0) of
        None \<Rightarrow> Inl AttributeError
      | Some metadata \<Rightarrow>
     (case da_unit d0 of
        None \<Rightarrow> Inl TypeError
      | Some unit \<Rightarrow>
     (case stack_rows (map da_data (d0 # ds)) of
        Inl e \<Rightarrow> Inl e
      | Inr rows \<Rightarrow>
     (case get_time_dimension d0 of
        Some (RangeDimension tks tunit lbl) \<Rightarrow>
          (case tunit of
             None \<Rightarrow> Inl TypeError
           | Some tu \<Rightarrow>
          (case neo_kwargs [''signal'', ''times'', ''units'', ''time_units'', ''dtype'',
                            ''copy''] []
                  (AList.update ''nix_name'' (PyStr (sec_name metadata)) attrs0) of
             Inl e \<Rightarrow> Inl e
           | Inr base \<Rightarrow>
               Inr \<lparr>name = name base, description = description base,
                     annotations = annotations base,
                     ir_signal = create_quantity (np_transpose rows) unit,
                     ir_times = create_quantity tks tu\<rparr>))
      | _ \<Rightarrow> Inl AttributeError))))))"

text \<open>
  \<^verbatim>\<open>nix_mtag.positions\<close> and \<^verbatim>\<open>nix_mtag.extents\<close> as one-dimensional quantities, and
  the labels of the first dimension of the positions.
\<close>

definition da_quantity :: "data_array \<Rightarrow> py_error + real list quantity" where
  "da_quantity d =
     (case da_unit d of
        None \<Rightarrow> Inl TypeError
      | Some u \<Rightarrow> (case row_of (da_data d) of Inl e \<Rightarrow> Inl e | Inr xs \<Rightarrow> Inr (create_quantity xs u)))"

definition positions_labels :: "data_array \<Rightarrow> py_error + string list" where
  "positions_labels d =
     (case da_dimensions d of
        [] \<Rightarrow> Inl IndexError
      | SetDimension ls # ds \<Rightarrow> Inr ls
      | _ # ds \<Rightarrow> Inl AttributeError)"

definition nix_to_neo_event ::
  "externals \<Rightarrow> nix_file \<Rightarrow> nix_block \<Rightarrow> multi_tag \<Rightarrow> py_error + event" where
  "nix_to_neo_event E f nb nix_mtag =
     (case nix_attr_to_neo E f (mt_name nix_mtag) (mt_definition nix_mtag)
             (mt_metadata nix_mtag) of
        Inl e \<Rightarrow> Inl e
      | Inr neo_attrs \<Rightarrow>
     (case find_da nb (mt_positions nix_mtag) of
        None \<Rightarrow> Inl AttributeError
      | Some positions \<Rightarrow>
     (case da_quantity positions of
        Inl e \<Rightarrow> Inl e
      | Inr tms \<Rightarrow>
     (case positions_labels positions of
        Inl e \<Rightarrow> Inl e
      | Inr lbls \<Rightarrow>
     (case neo_kwargs [''times'', ''labels'', ''units''] [] neo_attrs of
        Inl e \<Rightarrow> Inl e
      | Inr base \<Rightarrow>
          Inr \<lparr>name = name base, description = description base,
                annotations = annotations base,
                ev_times = tms, ev_labels = lbls\<rparr>)))))"

definition nix_to_neo_epoch ::
  "externals \<Rightarrow> nix_file \<Rightarrow> nix_block \<Rightarrow> multi_tag \<Rightarrow> py_error + epoch" where
  "nix_to_neo_epoch E f nb nix_mtag =
     (case nix_attr_to_neo E f (mt_name nix_mtag) (mt_definition nix_mtag)
             (mt_metadata nix_mtag) of
        Inl e \<Rightarrow> Inl e
      | Inr neo_attrs \<Rightarrow>
     (case find_da nb (mt_positions nix_mtag) of
        None \<Rightarrow> Inl AttributeError
      | Some positions \<Rightarrow>
     (case da_quantity positions of
        Inl e \<Rightarrow> Inl e
      | Inr tms \<Rightarrow>
     (case (case mt_extents nix_mtag of None \<Rightarrow> None | Some n \<Rightarrow> find_da nb n) of
        None \<Rightarrow> Inl AttributeError
      | Some extents \<Rightarrow>
     (case da_quantity extents of
        Inl e \<Rightarrow> Inl e
      | Inr durations \<Rightarrow>
     (case positions_labels positions of
        Inl e \<Rightarrow> Inl e
      | Inr lbls \<Rightarrow>
     (case neo_kwargs [''times'', ''durations'', ''labels'', ''units''] [] neo_attrs of
        Inl e \<Rightarrow> Inl e
      | Inr base \<Rightarrow>
          Inr \<lparr>name = name base, description = description base,
                annotations = annotations base,
                ep_times = tms, ep_durations = durations, ep_labels = lbls\<rparr>)))))))"

text \<open>
  \<^verbatim>\<open>section[name]\<close>: the value of a property, or the list of its values when it has
  more than one.
\<close>

definition section_getitem :: "nix_section \<Rightarrow> string \<Rightarrow> py_error + pyval" where
  "section_getitem sec k =
     (case map_of (props sec) k of
        None \<Rightarrow> Inl KeyError
      | Some p \<Rightarrow>
          (case map value_of (prop_values p) of [v] \<Rightarrow> Inr v | vs \<Rightarrow> Inr (PyList vs)))"

fun waveform_data :: "ndarray \<Rightarrow> py_error + real list list list" where
  "waveform_data (A3 w) = Inr w"
| "waveform_data a = Inl ValueError"

text \<open>
  The waveforms of a spike train, its sampling period and its left sweep, read from
  the first feature of the tag.
\<close>

definition read_waveforms ::
  "nix_file \<Rightarrow> nix_block \<Rightarrow> string
     \<Rightarrow> py_error + (real list list list quantity \<times> real quantity \<times> pyval option)" where
  "read_waveforms f nb wfname =
     (case find_da nb wfname of
        None \<Rightarrow> Inl AttributeError
      | Some wfda \<Rightarrow>
     (case get_time_dimension wfda of
        Some (SampledDimension interval tunit offset lbl) \<Rightarrow>
          (case da_unit wfda of
             None \<Rightarrow> Inl TypeError
           | Some wu \<Rightarrow>
          (case waveform_data (da_data wfda) of
             Inl e \<Rightarrow> Inl e
           | Inr w \<Rightarrow>
          (case tunit of
             None \<Rightarrow> Inl TypeError
           | Some tu \<Rightarrow>
          (case metadata_of f (da_metadata wfda) of
             None \<Rightarrow> Inl TypeError
           | Some md \<Rightarrow>
               (case section_getitem md ''left_sweep'' of
                  Inl e \<Rightarrow> Inr (create_quantity w wu, create_quantity interval tu, None)
                | Inr ls \<Rightarrow>
                    Inr (create_quantity w wu, create_quantity interval tu,
                         Some (py_quantity (create_quantity ls tu))))))))
      | _ \<Rightarrow> Inl AttributeError))"

definition nix_to_neo_spiketrain ::
  "externals \<Rightarrow> nix_file \<Rightarrow> nix_block \<Rightarrow> multi_tag \<Rightarrow> py_error + spiketrain" where
  "nix_to_neo_spiketrain E f nb nix_mtag =
     (case nix_attr_to_neo E f (mt_name nix_mtag) (mt_definition nix_mtag)
             (mt_metadata nix_mtag) of
        Inl e \<Rightarrow> Inl e
      | Inr neo_attrs \<Rightarrow>
     (case find_da nb (mt_positions nix_mtag) of
        None \<Rightarrow> Inl AttributeError
      | Some positions \<Rightarrow>
     (case da_quantity positions of
        Inl e \<Rightarrow> Inl e
      | Inr tms \<Rightarrow>
     (case map_of neo_attrs ''t_stop'' of
        None \<Rightarrow> Inl TypeError
      | Some tstop \<Rightarrow>
     (case neo_kwargs [''times'', ''units'', ''dtype'', ''copy'', ''sampling_rate'',
                       ''waveforms'', ''left_sweep''] [''t_start'', ''t_stop''] neo_attrs of
        Inl e \<Rightarrow> Inl e
      | Inr base \<Rightarrow>
     (let tstart = (case map_of neo_attrs ''t_start'' of
                      None \<Rightarrow> PyQuantity (PyFloat 0) (Unit ''s'')
                    | Some v \<Rightarrow> v)
      in case mt_features nix_mtag of
           [] \<Rightarrow>
             Inr \<lparr>name = name base, description = description base,
                   annotations = annotations base,
                   st_times = tms, st_t_start = tstart, st_t_stop = tstop,
                   st_waveforms = None, st_sampling_period = Some (1, Unit ''1/Hz''),
                   st_left_sweep = None\<rparr>
         | wfname # fs \<Rightarrow>
             (case read_waveforms f nb wfname of
                Inl e \<Rightarrow> Inl e
              | Inr (w, sp, ls) \<Rightarrow>
                  Inr \<lparr>name = name base, description = description base,
                        annotations = annotations base,
                        st_times = tms, st_t_start = tstart, st_t_stop = tstop,
                        st_waveforms = Some w, st_sampling_period = Some sp,
                        st_left_sweep = ls\<rparr>)))))))"

text \<open>
  \<^verbatim>\<open>_group_signals\<close>: the arrays sorted by name, then grouped under the name up to the
  last dot. The dictionary is an association list in insertion order.
\<close>

definition basename :: "string \<Rightarrow> string" where
  "basename n = py_join ''.'' (butlast (py_split (CHR ''.'') n))"

fun group_append ::
  "(string \<times> data_array list) list \<Rightarrow> string \<Rightarrow> data_array
     \<Rightarrow> (string \<times> data_array list) list" where
  "group_append [] k da = [(k, [da])]"
| "group_append ((k', das) # gs) k da =
     (if k' = k then (k', das @ [da]) # gs else (k', das) # group_append gs k da)"

definition group_signals :: "data_array list \<Rightarrow> (string \<times> data_array list) list" where
  "group_signals dataarrays =
     foldl (\<lambda>groups da. group_append groups (basename (da_name da)) da) []
       (sort_key da_name dataarrays)"

definition is_signal_type :: "string \<Rightarrow> bool" where
  "is_signal_type t = (t = ''neo.analogsignal'' \<or> t = ''neo.irregularlysampledsignal'')"

definition signal_of_group ::
  "externals \<Rightarrow> nix_file \<Rightarrow> data_array list \<Rightarrow> py_error + leaf list" where
  "signal_of_group E f das =
     (case das of
        [] \<Rightarrow> Inl IndexError
      | d0 # ds \<Rightarrow>
          if da_type d0 = ''neo.analogsignal'' then
            (case nix_to_neo_analogsignal E f das of
               Inl e \<Rightarrow> Inl e | Inr a \<Rightarrow> Inr [AnalogSignal a])
          else if da_type d0 = ''neo.irregularlysampledsignal'' then
            (case nix_to_neo_irregularlysampledsignal E f das of
               Inl e \<Rightarrow> Inl e | Inr a \<Rightarrow> Inr [IrregularlySampledSignal a])
          else Inr [])"

definition leaf_of_mtag ::
  "externals \<Rightarrow> nix_file \<Rightarrow> nix_block \<Rightarrow> multi_tag \<Rightarrow> py_error + leaf list" where
  "leaf_of_mtag E f nb mtag =
     (if mt_type mtag = ''neo.event'' then
        (case nix_to_neo_event E f nb mtag of Inl e \<Rightarrow> Inl e | Inr x \<Rightarrow> Inr [Event x])
      else if mt_type mtag = ''neo.epoch'' then
        (case nix_to_neo_epoch E f nb mtag of Inl e \<Rightarrow> Inl e | Inr x \<Rightarrow> Inr [Epoch x])
      else if mt_type mtag = ''neo.spiketrain'' then
        (case nix_to_neo_spiketrain E f nb mtag of Inl e \<Rightarrow> Inl e | Inr x \<Rightarrow> Inr [SpikeTrain x])
      else Inr [])"

fun is_AnalogSignal :: "leaf \<Rightarrow> bool" where
  "is_AnalogSignal (AnalogSignal a) = True" | "is_AnalogSignal l = False"

fun is_IrregularlySampledSignal :: "leaf \<Rightarrow> bool" where
  "is_IrregularlySampledSignal (IrregularlySampledSignal a) = True"
| "is_IrregularlySampledSignal l = False"

fun is_Event :: "leaf \<Rightarrow> bool" where
  "is_Event (Event a) = True" | "is_Event l = False"

fun is_Epoch :: "leaf \<Rightarrow> bool" where
  "is_Epoch (Epoch a) = True" | "is_Epoch l = False"

fun is_SpikeTrain :: "leaf \<Rightarrow> bool" where
  "is_SpikeTrain (SpikeTrain a) = True" | "is_SpikeTrain l = False"

definition attrs_datetime :: "(string \<times> pyval) list \<Rightarrow> string \<Rightarrow> datetime option" where
  "attrs_datetime attrs k = (case map_of attrs k of Some (PyDatetime d) \<Rightarrow> Some d | _ \<Rightarrow> None)"

definition nix_to_neo_segment ::
  "externals \<Rightarrow> nix_file \<Rightarrow> nix_block \<Rightarrow> group \<Rightarrow> py_error + leaf segment" where
  "nix_to_neo_segment E f nb nix_group =
     (case nix_attr_to_neo E f (g_name nix_group) (g_definition nix_group)
             (g_metadata nix_group) of
        Inl e \<Rightarrow> Inl e
      | Inr neo_attrs \<Rightarrow>
     (case neo_kwargs [] [''file_datetime'', ''rec_datetime'', ''index''] neo_attrs of
        Inl e \<Rightarrow> Inl e
      | Inr base \<Rightarrow>
     (let dataarrays = filter (\<lambda>da. is_signal_type (da_type da))
                         (group_data_arrays nb nix_group)
      in case mapM (\<lambda>g. signal_of_group E f (snd g)) (group_signals dataarrays) of
           Inl e \<Rightarrow> Inl e
         | Inr sigs \<Rightarrow>
        (case mapM (leaf_of_mtag E f nb) (group_multi_tags nb nix_group) of
           Inl e \<Rightarrow> Inl e
         | Inr tags \<Rightarrow>
             Inr \<lparr>name = name base, description = description base,
                   annotations = annotations base,
                   seg_rec_datetime = Some (fromtimestamp (g_created_at nix_group)),
                   seg_file_datetime = attrs_datetime neo_attrs ''file_datetime'',
                   analogsignals = filter is_AnalogSignal (concat sigs),
                   irregularlysampledsignals =
                     filter is_IrregularlySampledSignal (concat sigs),
                   events = filter is_Event (concat tags),
                   epochs = filter is_Epoch (concat tags),
                   spiketrains = filter is_SpikeTrain (concat tags)\<rparr>))))"

text \<open>
  \<^verbatim>\<open>_nix_to_neo_block\<close> converts the groups of the block into segments and nothing
  else: the sources of the block are not read, so the Block it returns has no
  ChannelIndex.
\<close>

definition nix_to_neo_block ::
  "externals \<Rightarrow> nix_file \<Rightarrow> nix_block \<Rightarrow> py_error + leaf block" where
  "nix_to_neo_block E f nix_block =
     (case nix_attr_to_neo E f (b_name nix_block) (b_definition nix_block)
             (b_metadata nix_block) of
        Inl e \<Rightarrow> Inl e
      | Inr neo_attrs \<Rightarrow>
     (case neo_kwargs [] [''file_datetime'', ''rec_datetime'', ''index''] neo_attrs of
        Inl e \<Rightarrow> Inl e
      | Inr base \<Rightarrow>
     (case mapM (nix_to_neo_segment E f nix_block) (b_groups nix_block) of
        Inl e \<Rightarrow> Inl e
      | Inr segs \<Rightarrow>
          Inr \<lparr>name = name base, description = description base,
                annotations = annotations base,
                rec_datetime = Some (fromtimestamp (b_created_at nix_block)),
                file_datetime = attrs_datetime neo_attrs ''file_datetime'',
                segments = segs, channel_indexes = []\<rparr>)))"

text \<open>
  The state of a \<^verbatim>\<open>NixIO\<close> object: the open file, \<^verbatim>\<open>_block_read_counter\<close>,
  \<^verbatim>\<open>_signal_map\<close>, the number of identifiers \<^verbatim>\<open>_generate_nix_name\<close> has drawn, the
  number of warnings logged, and the number of data arrays the IO has created in
  the file (a count of the calls of \<^verbatim>\<open>create_data_array\<close>, kept to tell a new array
  from one that was there). (\<^verbatim>\<open>_neo_map\<close> is only ever assigned on the paths that
  \<^verbatim>\<open>read_block\<close> and \<^verbatim>\<open>write_block\<close> reach, so it is left out.)
\<close>

record nixio =
  nix_file :: nix_file
  block_read_counter :: nat
  signal_map :: "string \<rightharpoonup> string list"
  uuid_count :: nat
  warnings :: nat
  arrays_created :: nat

fun find_neo_name :: "nix_file \<Rightarrow> string \<Rightarrow> nix_block list \<Rightarrow> py_error + nix_block" where
  "find_neo_name f neoname [] = Inl KeyError"
| "find_neo_name f neoname (blk # blks) =
     (case metadata_of f (b_metadata blk) of
        None \<Rightarrow> Inl TypeError
      | Some md \<Rightarrow>
          if section_getitem md ''neo_name'' = Inr (PyStr neoname) then Inr blk
          else find_neo_name f neoname blks)"

text \<open>
  The first part of \<^verbatim>\<open>read_block\<close>: the block the arguments select. \<open>Inr None\<close> is
  the early \<^verbatim>\<open>return None\<close>.
\<close>

definition select_block ::
  "nixio \<Rightarrow> int option \<Rightarrow> string option \<Rightarrow> string option \<Rightarrow> py_error + nix_block option" where
  "select_block io index nixname neoname =
     (let f = nix_file io in
      case index of
        Some i \<Rightarrow> (case py_index (blocks f) i of Inl e \<Rightarrow> Inl e | Inr b \<Rightarrow> Inr (Some b))
      | None \<Rightarrow>
     (case nixname of
        Some n \<Rightarrow> (case find_block f n of None \<Rightarrow> Inl KeyError | Some b \<Rightarrow> Inr (Some b))
      | None \<Rightarrow>
     (case neoname of
        Some n \<Rightarrow>
          (case find_neo_name f n (blocks f) of Inl e \<Rightarrow> Inl e | Inr b \<Rightarrow> Inr (Some b))
      | None \<Rightarrow>
          if block_read_counter io > length (blocks f) then Inr None
          else (case py_index (blocks f) (int (block_read_counter io)) of
                  Inl e \<Rightarrow> Inl e
                | Inr b \<Rightarrow> Inr (Some b)))))"

text \<open>
  \<^verbatim>\<open>read_block\<close> returns its outcome and the state it leaves. Whatever block the
  arguments selected is overwritten by the block at \<^verbatim>\<open>_block_read_counter\<close>, the
  counter is incremented, and that block is converted.
\<close>

definition read_block ::
  "externals \<Rightarrow> int option \<Rightarrow> string option \<Rightarrow> string option \<Rightarrow> bool \<Rightarrow> nixio
     \<Rightarrow> (py_error + leaf block option) \<times> nixio" where
  "read_block E index nixname neoname lazy io =
     (if lazy then (Inl AssertionError, io)
      else case select_block io index nixname neoname of
        Inl e \<Rightarrow> (Inl e, io)
      | Inr None \<Rightarrow> (Inr None, io)
      | Inr (Some selected) \<Rightarrow>
          (case py_index (blocks (nix_file io)) (int (block_read_counter io)) of
             Inl e \<Rightarrow> (Inl e, io)
           | Inr nix_block \<Rightarrow>
               (case nix_to_neo_block E (nix_file io) nix_block of
                  Inl e \<Rightarrow> (Inl e, io\<lparr>block_read_counter := block_read_counter io + 1\<rparr>)
                | Inr b \<Rightarrow>
                    (Inr (Some b), io\<lparr>block_read_counter := block_read_counter io + 1\<rparr>))))"

section \<open>Content hashes\<close>

text \<open>
  \<^verbatim>\<open>_hash_object\<close> dispatches on the class of the object. \<^verbatim>\<open>strupdate\<close> feeds the text
  of a value and \<^verbatim>\<open>dupdate\<close> the buffer of an array, which holds its magnitudes only.
  The values derived by \<^verbatim>\<open>neo.core\<close> (\<^verbatim>\<open>sampling_rate\<close>, \<^verbatim>\<open>t_stop\<close> of a signal) are
  fed as the attributes they are computed from.
\<close>

datatype 'r neo_object =
    OBlock "'r block"
  | OSegment "'r segment"
  | OChannelIndex "'r channelindex"
  | OUnit "'r neo_unit"
  | OLeaf leaf

definition opt_str :: "string option \<Rightarrow> pyval" where
  "opt_str x = (case x of None \<Rightarrow> PyNone | Some s \<Rightarrow> PyStr s)"

definition opt_datetime :: "datetime option \<Rightarrow> pyval" where
  "opt_datetime x = (case x of None \<Rightarrow> PyNone | Some d \<Rightarrow> PyDatetime d)"

definition py_array :: "real list \<Rightarrow> pyval" where
  "py_array xs = PyList (map PyFloat xs)"

definition py_matrix :: "real list list \<Rightarrow> pyval" where
  "py_matrix m = PyList (map py_array m)"

fun magnitude_of :: "pyval \<Rightarrow> pyval" where
  "magnitude_of (PyQuantity m u) = m"
| "magnitude_of v = v"

definition hash_common :: "string option \<Rightarrow> string option \<Rightarrow> (string \<times> pyval) list \<Rightarrow> hash_chunk list" where
  "hash_common nm descr annots =
     [StrUpdate (opt_str nm), StrUpdate (opt_str descr)]
     @ concat (map (\<lambda>kv. [StrUpdate (PyStr (fst kv)), StrUpdate (snd kv)])
                (sort_key fst annots))"

fun hash_leaf :: "leaf \<Rightarrow> hash_chunk list" where
  "hash_leaf (AnalogSignal obj) =
     hash_common (name obj) (description obj) (annotations obj)
     @ [DUpdate (py_matrix (fst (signal obj))), DUpdate (PyFloat 1),
        DUpdate (PyFloat (fst (t_start obj))),
        DUpdate (PyList [PyStr ''sampling_rate'', PyFloat (fst (sampling_period obj))]),
        DUpdate (PyList [PyStr ''t_stop'', py_quantity (PyFloat (fst (t_start obj)), snd (t_start obj)),
                         py_quantity (PyFloat (fst (sampling_period obj)), snd (sampling_period obj)),
                         PyInt (int (length (fst (signal obj))))]),
        StrUpdate (PyStr ''AnalogSignal'')]"
| "hash_leaf (IrregularlySampledSignal obj) =
     hash_common (name obj) (description obj) (annotations obj)
     @ [DUpdate (py_matrix (fst (ir_signal obj))), DUpdate (py_array (fst (ir_times obj))),
        DUpdate (PyFloat 1),
        StrUpdate (PyStr ''IrregularlySampledSignal'')]"
| "hash_leaf (Event obj) =
     hash_common (name obj) (description obj) (annotations obj)
     @ [DUpdate (py_array (fst (ev_times obj)))]
     @ map (\<lambda>l. StrUpdate (PyStr l)) (ev_labels obj)
     @ [StrUpdate (PyStr ''Event'')]"
| "hash_leaf (Epoch obj) =
     hash_common (name obj) (description obj) (annotations obj)
     @ [DUpdate (py_array (fst (ep_times obj))), DUpdate (py_array (fst (ep_durations obj)))]
     @ map (\<lambda>l. StrUpdate (PyStr l)) (ep_labels obj)
     @ [StrUpdate (PyStr ''Epoch'')]"
| "hash_leaf (SpikeTrain obj) =
     hash_common (name obj) (description obj) (annotations obj)
     @ [DUpdate (py_array (fst (st_times obj))), DUpdate (PyFloat 1),
        DUpdate (magnitude_of (st_t_stop obj)), DUpdate (magnitude_of (st_t_start obj))]
     @ (case st_waveforms obj of
          None \<Rightarrow> []
        | Some w \<Rightarrow> [DUpdate (PyList (map py_matrix (fst w)))])
     @ [DUpdate (case st_sampling_period obj of
                   None \<Rightarrow> PyNone
                 | Some sp \<Rightarrow> PyList [PyStr ''sampling_rate'', PyFloat (fst sp)])]
     @ (case st_left_sweep obj of None \<Rightarrow> [] | Some ls \<Rightarrow> [StrUpdate ls])
     @ [StrUpdate (PyStr ''SpikeTrain'')]"

fun hash_feed :: "'r neo_object \<Rightarrow> hash_chunk list" where
  "hash_feed (OBlock obj) =
     hash_common (name obj) (description obj) (annotations obj)
     @ [StrUpdate (opt_datetime (rec_datetime obj)), StrUpdate (opt_datetime (file_datetime obj)),
        StrUpdate (PyStr ''Block'')]"
| "hash_feed (OSegment obj) =
     hash_common (name obj) (description obj) (annotations obj)
     @ [StrUpdate (opt_datetime (seg_rec_datetime obj)),
        StrUpdate (opt_datetime (seg_file_datetime obj)),
        StrUpdate (PyStr ''Segment'')]"
| "hash_feed (OChannelIndex obj) =
     hash_common (name obj) (description obj) (annotations obj)
     @ map (\<lambda>idx. StrUpdate (PyInt idx)) (chx_index obj)
     @ map StrUpdate (channel_names obj)
     @ (case coordinates obj of
          None \<Rightarrow> []
        | Some cs \<Rightarrow>
            concat (map (\<lambda>coord. map (\<lambda>c. StrUpdate (PyQuantity (PyFloat c) (snd cs))) coord)
                      (fst cs)))
     @ [StrUpdate (PyStr ''ChannelIndex'')]"
| "hash_feed (OUnit obj) =
     hash_common (name obj) (description obj) (annotations obj)
     @ [StrUpdate (PyStr ''Unit'')]"
| "hash_feed (OLeaf l) = hash_leaf l"

definition hash_object :: "externals \<Rightarrow> 'r neo_object \<Rightarrow> string" where
  "hash_object E obj = md5_hexdigest E (hash_feed obj)"

section \<open>Writing\<close>

definition andthen :: "'e + 'a \<Rightarrow> ('a \<Rightarrow> 'e + 'b) \<Rightarrow> 'e + 'b" where
  "andthen m k = (case m of Inl e \<Rightarrow> Inl e | Inr x \<Rightarrow> k x)"

text \<open>A \<^verbatim>\<open>for\<close> loop whose body updates the state or raises.\<close>

fun foldM :: "('a \<Rightarrow> 's \<Rightarrow> 'e + 's) \<Rightarrow> 'a list \<Rightarrow> 's \<Rightarrow> 'e + 's" where
  "foldM f [] s = Inr s"
| "foldM f (x # xs) s = andthen (f x s) (foldM f xs)"

text \<open>
  A \<^verbatim>\<open>for\<close> loop over objects held by value, each of which the body may annotate:
  the loop returns the objects as the body left them.
\<close>

fun map_writer :: "('a \<Rightarrow> 's \<Rightarrow> 'e + 'a \<times> 's) \<Rightarrow> 'a list \<Rightarrow> 's \<Rightarrow> 'e + 'a list \<times> 's" where
  "map_writer f [] s = Inr ([], s)"
| "map_writer f (x # xs) s =
     andthen (f x s) (\<lambda>r.
     andthen (map_writer f xs (snd r)) (\<lambda>rs. Inr (fst r # fst rs, snd rs)))"

text \<open>
  What a write works on: the NIX block being filled (the handle \<^verbatim>\<open>nixblock\<close> of the
  source), the metadata sections of the file, \<^verbatim>\<open>_signal_map\<close>, the number of
  identifiers drawn, the number of warnings, the number of data arrays created, the
  clock, and the heap of the leaf objects, which the source annotates in place.
\<close>

record wctx =
  nixblock :: nix_block
  secs :: "sec_ref \<rightharpoonup> nix_section"
  sigmap :: "string \<rightharpoonup> string list"
  uuids :: nat
  warns :: nat
  created :: nat
  now :: int
  heap :: "nat \<rightharpoonup> leaf"

subsection \<open>Operations of the store\<close>

definition create_section ::
  "(sec_ref \<rightharpoonup> nix_section) \<Rightarrow> sec_ref \<Rightarrow> string \<Rightarrow> string
     \<Rightarrow> py_error + (sec_ref \<rightharpoonup> nix_section)" where
  "create_section ss parent nm ty =
     (if ss (parent @ [nm]) \<noteq> None then Inl DuplicateName
      else Inr (ss(parent @ [nm] \<mapsto> \<lparr>sec_name = nm, sec_type = ty, props = []\<rparr>)))"

text \<open>
  \<^verbatim>\<open>section[key] = values\<close> with values already wrapped: a new property has no unit,
  an existing one keeps its unit.
\<close>

definition section_setvalues ::
  "(sec_ref \<rightharpoonup> nix_section) \<Rightarrow> sec_ref \<Rightarrow> string \<Rightarrow> nix_value list
     \<Rightarrow> py_error + (sec_ref \<rightharpoonup> nix_section)" where
  "section_setvalues ss p k vals =
     (case ss p of
        None \<Rightarrow> Inl AttributeError
      | Some sec \<Rightarrow>
          Inr (ss(p \<mapsto> sec\<lparr>props :=
                 AList.update k
                   \<lparr>prop_values = vals,
                    prop_unit = (case map_of (props sec) k of
                                   None \<Rightarrow> None | Some old \<Rightarrow> prop_unit old)\<rparr>
                   (props sec)\<rparr>)))"

text \<open>\<^verbatim>\<open>section[key] = x\<close> for one Python value, which the store wraps.\<close>

definition section_setitem ::
  "(sec_ref \<rightharpoonup> nix_section) \<Rightarrow> sec_ref \<Rightarrow> string \<Rightarrow> pyval
     \<Rightarrow> py_error + (sec_ref \<rightharpoonup> nix_section)" where
  "section_setitem ss p k x = andthen (nix_Value x) (\<lambda>v. section_setvalues ss p k [v])"

text \<open>\<^verbatim>\<open>section.props[key].unit = unit\<close>.\<close>

definition set_prop_unit ::
  "(sec_ref \<rightharpoonup> nix_section) \<Rightarrow> sec_ref \<Rightarrow> string \<Rightarrow> string option
     \<Rightarrow> py_error + (sec_ref \<rightharpoonup> nix_section)" where
  "set_prop_unit ss p k u =
     (case ss p of
        None \<Rightarrow> Inl AttributeError
      | Some sec \<Rightarrow>
          (case map_of (props sec) k of
             None \<Rightarrow> Inl KeyError
           | Some pr \<Rightarrow>
               Inr (ss(p \<mapsto> sec\<lparr>props := AList.update k (pr\<lparr>prop_unit := u\<rparr>) (props sec)\<rparr>))))"

definition create_data_array :: "nix_block \<Rightarrow> data_array \<Rightarrow> py_error + nix_block" where
  "create_data_array b d =
     (if find_da b (da_name d) \<noteq> None then Inl DuplicateName
      else Inr (b\<lparr>b_data_arrays := b_data_arrays b @ [d]\<rparr>))"

definition create_multi_tag :: "nix_block \<Rightarrow> multi_tag \<Rightarrow> py_error + nix_block" where
  "create_multi_tag b m =
     (if find_mt b (mt_name m) \<noteq> None then Inl DuplicateName
      else Inr (b\<lparr>b_multi_tags := b_multi_tags b @ [m]\<rparr>))"

text \<open>Appending an entity to a container of links: an entity is linked once.\<close>

definition link_name :: "string list \<Rightarrow> string \<Rightarrow> string list" where
  "link_name xs n = (if n \<in> set xs then xs else xs @ [n])"

definition link_names :: "string list \<Rightarrow> string list \<Rightarrow> string list" where
  "link_names xs ns = foldl link_name xs ns"

subsection \<open>Identifiers\<close>

text \<open>
  Every writer starts with the same lines: the \<^verbatim>\<open>nix_name\<close> annotation of the
  object is used when there is one, otherwise a name is generated and attached
  with \<^verbatim>\<open>annotate\<close>. The result is the name, the annotations and the number of
  identifiers drawn so far.
\<close>

definition assign_nix_name ::
  "externals \<Rightarrow> string \<Rightarrow> (string \<times> pyval) list \<Rightarrow> nat
     \<Rightarrow> py_error + (string \<times> (string \<times> pyval) list \<times> nat)" where
  "assign_nix_name E objtype annots n =
     (case map_of annots ''nix_name'' of
        Some (PyStr nm) \<Rightarrow> Inr (nm, annots, n)
      | Some v \<Rightarrow> Inl TypeError
      | None \<Rightarrow>
          (let nm = ''neo.'' @ objtype @ ''.'' @ uuid4_hex E n
           in Inr (nm, AList.update ''nix_name'' (PyStr nm) annots, Suc n)))"

subsection \<open>Metadata properties\<close>

text \<open>\<^verbatim>\<open>ndarray.item()\<close>: the one element of an array of size one.\<close>

fun np_item :: "pyval \<Rightarrow> py_error + pyval" where
  "np_item (PyList [x]) = np_item x"
| "np_item (PyList xs) = Inl ValueError"
| "np_item (PyArray0 x) = np_item x"
| "np_item (PyNumpy x) = Inr x"
| "np_item v = Inr v"

text \<open>
  \<^verbatim>\<open>isinstance(item, Iterable)\<close> for an item that is not a quantity: text, byte
  strings, lists and arrays are iterable.
\<close>

fun is_iterable :: "pyval \<Rightarrow> bool" where
  "is_iterable (PyStr s) = True"
| "is_iterable (PyBytes s) = True"
| "is_iterable (PyList xs) = True"
| "is_iterable (PyArray0 x) = True"
| "is_iterable (PyQuantity m u) = True"
| "is_iterable v = False"

text \<open>
  The loop over the items of an iterable value in \<^verbatim>\<open>_write_property\<close>. The result
  \<open>None\<close> is the \<^verbatim>\<open>return None\<close> after the warning; otherwise the wrapped values and
  the unit of the last quantity among the items.
\<close>

fun property_items ::
  "pyval list \<Rightarrow> nix_value list \<Rightarrow> string option
     \<Rightarrow> py_error + (nix_value list \<times> string option) option" where
  "property_items [] vals unit = Inr (Some (vals, unit))"
| "property_items (item # items) vals unit =
     (case item of
        PyQuantity m u \<Rightarrow>
          andthen (np_item m) (\<lambda>x.
          andthen (nix_Value x) (\<lambda>v.
            property_items items (vals @ [v]) (Some (dimensionality_str u))))
      | _ \<Rightarrow>
          if is_iterable item then Inr None
          else andthen (nix_Value item) (\<lambda>v. property_items items (vals @ [v]) unit))"

definition write_property :: "wctx \<Rightarrow> sec_ref \<Rightarrow> string \<Rightarrow> pyval \<Rightarrow> py_error + wctx" where
  "write_property ctx sect nm v =
     (case v of
        PyQuantity m u \<Rightarrow>
          andthen (case m of
                     PyList vs \<Rightarrow> andthen (mapM nix_Value vs) (section_setvalues (secs ctx) sect nm)
                   | _ \<Rightarrow> andthen (np_item m) (section_setitem (secs ctx) sect nm)) (\<lambda>ss.
          andthen (set_prop_unit ss sect nm (Some (dimensionality_str u))) (\<lambda>ss'.
            Inr (ctx\<lparr>secs := ss'\<rparr>)))
      | PyDatetime dt \<Rightarrow>
          andthen (section_setitem (secs ctx) sect nm (PyInt (calculate_timestamp dt)))
            (\<lambda>ss. Inr (ctx\<lparr>secs := ss\<rparr>))
      | PyStr x \<Rightarrow>
          andthen (section_setitem (secs ctx) sect nm (PyStr x)) (\<lambda>ss. Inr (ctx\<lparr>secs := ss\<rparr>))
      | PyBytes x \<Rightarrow>
          andthen (section_setitem (secs ctx) sect nm (PyStr x)) (\<lambda>ss. Inr (ctx\<lparr>secs := ss\<rparr>))
      | PyArray0 x \<Rightarrow>
          andthen (np_item x) (\<lambda>y.
          andthen (section_setitem (secs ctx) sect nm y) (\<lambda>ss.
          andthen (set_prop_unit ss sect nm None) (\<lambda>ss'. Inr (ctx\<lparr>secs := ss'\<rparr>))))
      | PyList items \<Rightarrow>
          andthen (property_items items [] None) (\<lambda>r.
            case r of
              None \<Rightarrow> Inr (ctx\<lparr>warns := Suc (warns ctx)\<rparr>)
            | Some (vals, unit) \<Rightarrow>
                andthen (section_setvalues (secs ctx) sect nm vals) (\<lambda>ss.
                andthen (set_prop_unit ss sect nm unit) (\<lambda>ss'. Inr (ctx\<lparr>secs := ss'\<rparr>))))
      | PyNumpy x \<Rightarrow>
          andthen (section_setitem (secs ctx) sect nm x) (\<lambda>ss. Inr (ctx\<lparr>secs := ss\<rparr>))
      | _ \<Rightarrow>
          andthen (section_setitem (secs ctx) sect nm v) (\<lambda>ss. Inr (ctx\<lparr>secs := ss\<rparr>)))"

text \<open>
  \<^verbatim>\<open>for k, v in obj.annotations.items(): self._write_property(metadata, k, v)\<close>; the
  value \<^verbatim>\<open>_write_property\<close> returns is not used.
\<close>

definition write_annotations ::
  "(string \<times> pyval) list \<Rightarrow> sec_ref \<Rightarrow> wctx \<Rightarrow> py_error + wctx" where
  "write_annotations annots sect ctx =
     foldM (\<lambda>kv c. write_property c sect (fst kv) (snd kv)) annots ctx"

definition neo_name_of :: "string option \<Rightarrow> pyval" where
  "neo_name_of nm = (case nm of None \<Rightarrow> PyStr [] | Some x \<Rightarrow> PyStr x)"

subsection \<open>Signals\<close>

text \<open>
  The loop \<^verbatim>\<open>for idx in itertools.count()\<close> that collects the arrays
  \<^verbatim>\<open>nix_name.0\<close>, \<^verbatim>\<open>nix_name.1\<close>, ... of the block until a name is missing. It ends
  because the names are pairwise different and the block holds finitely many arrays.
\<close>

definition nat_of_str :: "string \<Rightarrow> nat" where
  "nat_of_str s = foldl (\<lambda>a c. 10 * a + (of_char c - 48)) 0 s"

lemma nat_of_str_snoc: "nat_of_str (s @ [c]) = 10 * nat_of_str s + (of_char c - 48)"
  by (simp add: nat_of_str_def)

lemma of_char_digit: "d < 10 \<Longrightarrow> of_char (char_of (48 + d)) = (48 + d :: nat)"
  by (simp add: of_char_of)

lemma nat_of_str_str_nat: "nat_of_str (str_nat n) = n"
proof (induction n rule: str_nat.induct)
  case (1 n)
  show ?case
  proof (cases "n < 10")
    case True
    then have "str_nat n = [char_of (48 + n)]" by (subst str_nat.simps) simp
    then show ?thesis using True by (simp add: nat_of_str_def of_char_digit)
  next
    case False
    then have e: "str_nat n = str_nat (n div 10) @ [char_of (48 + n mod 10)]"
      by (subst str_nat.simps) simp
    have "n mod 10 < 10" by simp
    then have "of_char (char_of (48 + n mod 10)) = (48 + n mod 10 :: nat)" by (rule of_char_digit)
    then show ?thesis using 1[OF False] by (simp add: e nat_of_str_snoc)
  qed
qed

lemma inj_str_nat: "str_nat i = str_nat j \<Longrightarrow> i = j"
  by (metis nat_of_str_str_nat)

lemma str_nat_no_dot: "CHR ''.'' \<notin> set (str_nat n)"
proof (induction n rule: str_nat.induct)
  case (1 n)
  have d: "\<And>d. d < 10 \<Longrightarrow> char_of (48 + d :: nat) \<noteq> CHR ''.''"
  proof 
    fix d :: nat assume "d < 10" and h: "char_of (48 + d) = CHR ''.''"
    then have "of_char (char_of (48 + d)) = (of_char (CHR ''.'') :: nat)" by simp
    then show False using \<open>d < 10\<close> by (simp add: of_char_digit)
  qed
  show ?case
  proof (cases "n < 10")
    case True
    then show ?thesis using d[of n] by (subst str_nat.simps) auto
  next
    case False
    then show ?thesis using 1[OF False] d[of "n mod 10"] by (subst str_nat.simps) auto
  qed
qed

function collect_signal_das :: "nix_block \<Rightarrow> string \<Rightarrow> nat \<Rightarrow> string list" where
  "collect_signal_das b nix_name idx =
     (if find_da b (nix_name @ ''.'' @ str_nat idx) \<noteq> None
      then (nix_name @ ''.'' @ str_nat idx) # collect_signal_das b nix_name (Suc idx)
      else [])"
  by pat_completeness auto
termination
proof (relation "measure (\<lambda>(b, nm, idx).
          card {j. idx \<le> j \<and> nm @ ''.'' @ str_nat j \<in> da_name ` set (b_data_arrays b)})")
  show "wf (measure (\<lambda>(b, nm, idx).
          card {j. idx \<le> j \<and> nm @ ''.'' @ str_nat j \<in> da_name ` set (b_data_arrays b)}))"
    by simp
next
  fix b :: nix_block and nix_name :: string and idx :: nat
  assume h: "find_da b (nix_name @ ''.'' @ str_nat idx) \<noteq> None"
  let ?S = "\<lambda>i. {j. i \<le> j \<and> nix_name @ ''.'' @ str_nat j \<in> da_name ` set (b_data_arrays b)}"
  have inj: "inj (\<lambda>j. nix_name @ ''.'' @ str_nat j)"
    by (auto simp: inj_def dest: inj_str_nat)
  have "finite ((\<lambda>j. nix_name @ ''.'' @ str_nat j) -` (da_name ` set (b_data_arrays b)))"
    by (rule finite_vimageI[OF _ inj]) simp
  then have fin: "finite (?S idx)"
    by (rule rev_finite_subset) auto
  from h obtain d where "d \<in> set (b_data_arrays b)" "da_name d = nix_name @ ''.'' @ str_nat idx"
    by (auto simp: find_da_def find_None_iff)
  then have "idx \<in> ?S idx" by force
  moreover have "idx \<notin> ?S (Suc idx)" by simp
  moreover have "?S (Suc idx) \<subseteq> ?S idx" by auto
  ultimately have "?S (Suc idx) \<subset> ?S idx" by blast
  then have "card (?S (Suc idx)) < card (?S idx)" using fin by (rule psubset_card_mono[rotated])
  then show "((b, nix_name, Suc idx), (b, nix_name, idx)) \<in> measure (\<lambda>(b, nm, idx).
          card {j. idx \<le> j \<and> nm @ ''.'' @ str_nat j \<in> da_name ` set (b_data_arrays b)})"
    by simp
qed

declare collect_signal_das.simps [simp del]

text \<open>
  \<^verbatim>\<open>tstart.rescale(unit).magnitude.item()\<close>: the magnitude is unchanged when the
  quantity already has that unit.
\<close>

definition rescale :: "externals \<Rightarrow> real quantity \<Rightarrow> string \<Rightarrow> py_error + real" where
  "rescale E q target =
     (if units_to_string (snd q) = target then Inr (fst q)
      else (case rescale_factor E (snd q) target of
              None \<Rightarrow> Inl ValueError
            | Some k \<Rightarrow> Inr (fst q * k)))"

text \<open>
  One pass of the loop over the rows of an AnalogSignal: the array is created in the
  block with its unit, its metadata and its time dimension, \<^verbatim>\<open>t_start\<close> is written to
  the metadata, and the array is linked to the group.
\<close>

definition write_analogsignal_row ::
  "externals \<Rightarrow> analogsignal \<Rightarrow> string \<Rightarrow> sec_ref \<Rightarrow> nat \<times> real list
     \<Rightarrow> group \<times> wctx \<times> string list \<Rightarrow> py_error + group \<times> wctx \<times> string list" where
  "write_analogsignal_row E anasig nix_name metadata r st =
     (case st of (nixgroup, ctx, nixdas) \<Rightarrow>
      let daname = nix_name @ ''.'' @ str_nat (fst r);
          tunit = units_to_string (snd (sampling_period anasig))
      in
      andthen (section_setitem (secs ctx) metadata ''t_start'' (PyFloat (fst (t_start anasig)))) (\<lambda>ss.
      andthen (set_prop_unit ss metadata ''t_start''
                 (Some (units_to_string (snd (t_start anasig))))) (\<lambda>ss'.
      andthen (rescale E (t_start anasig) tunit) (\<lambda>offset.
      andthen (create_data_array (nixblock ctx)
                 \<lparr>da_name = daname, da_type = ''neo.analogsignal'',
                  da_definition = description anasig,
                  da_unit = Some (units_to_string (snd (signal anasig))),
                  da_data = A1 (snd r),
                  da_dimensions =
                    [SampledDimension (fst (sampling_period anasig)) (Some tunit) offset
                       (Some ''time'')],
                  da_metadata = Some metadata, da_sources = []\<rparr>) (\<lambda>b.
        Inr (nixgroup\<lparr>g_data_arrays := link_name (g_data_arrays nixgroup) daname\<rparr>,
             ctx\<lparr>nixblock := b, secs := ss', created := Suc (created ctx)\<rparr>,
             nixdas @ [daname]))))))"

definition write_analogsignal ::
  "externals \<Rightarrow> nat \<Rightarrow> group \<times> wctx \<Rightarrow> py_error + group \<times> wctx" where
  "write_analogsignal E a st =
     (case st of (nixgroup, ctx) \<Rightarrow>
      case heap ctx a of
        Some (AnalogSignal anasig0) \<Rightarrow>
          andthen (assign_nix_name E ''analogsignal'' (annotations anasig0) (uuids ctx)) (\<lambda>r.
          case r of (nix_name, annots, n) \<Rightarrow>
          let anasig = anasig0\<lparr>annotations := annots\<rparr>;
              ctx1 = ctx\<lparr>uuids := n, heap := (heap ctx)(a \<mapsto> AnalogSignal anasig)\<rparr>
          in
          if find_da (nixblock ctx1) (nix_name @ ''.0'') \<noteq> None then
            Inr (nixgroup\<lparr>g_data_arrays :=
                   link_names (g_data_arrays nixgroup)
                     (collect_signal_das (nixblock ctx1) nix_name 0)\<rparr>, ctx1)
          else
            (case g_metadata nixgroup of
               None \<Rightarrow> Inl AttributeError
             | Some gm \<Rightarrow>
            andthen (create_section (secs ctx1) gm nix_name ''neo.analogsignal.metadata'') (\<lambda>ss.
            andthen (foldM (write_analogsignal_row E anasig nix_name (gm @ [nix_name]))
                       (enumerate 0 (np_transpose (fst (signal anasig))))
                       (nixgroup, ctx1\<lparr>secs := ss\<rparr>, [])) (\<lambda>r2.
            case r2 of (nixgroup', ctx2, nixdas) \<Rightarrow>
            andthen (section_setitem (secs ctx2) (gm @ [nix_name]) ''neo_name''
                       (neo_name_of (name anasig))) (\<lambda>ss2.
            andthen (write_annotations annots (gm @ [nix_name]) (ctx2\<lparr>secs := ss2\<rparr>)) (\<lambda>ctx3.
              Inr (nixgroup', ctx3\<lparr>sigmap := (sigmap ctx3)(nix_name \<mapsto> nixdas)\<rparr>)))))))
      | _ \<Rightarrow> Inl AttributeError)"

definition write_irregularlysampledsignal_row ::
  "irregularlysampledsignal \<Rightarrow> string \<Rightarrow> sec_ref \<Rightarrow> nat \<times> real list
     \<Rightarrow> group \<times> wctx \<times> string list \<Rightarrow> py_error + group \<times> wctx \<times> string list" where
  "write_irregularlysampledsignal_row irsig nix_name metadata r st =
     (case st of (nixgroup, ctx, nixdas) \<Rightarrow>
      let daname = nix_name @ ''.'' @ str_nat (fst r) in
      andthen (create_data_array (nixblock ctx)
                 \<lparr>da_name = daname, da_type = ''neo.irregularlysampledsignal'',
                  da_definition = description irsig,
                  da_unit = Some (units_to_string (snd (ir_signal irsig))),
                  da_data = A1 (snd r),
                  da_dimensions =
                    [RangeDimension (fst (ir_times irsig))
                       (Some (units_to_string (snd (ir_times irsig)))) (Some ''time'')],
                  da_metadata = Some metadata, da_sources = []\<rparr>) (\<lambda>b.
        Inr (nixgroup\<lparr>g_data_arrays := link_name (g_data_arrays nixgroup) daname\<rparr>,
             ctx\<lparr>nixblock := b, created := Suc (created ctx)\<rparr>,
             nixdas @ [daname])))"

definition write_irregularlysampledsignal ::
  "externals \<Rightarrow> nat \<Rightarrow> group \<times> wctx \<Rightarrow> py_error + group \<times> wctx" where
  "write_irregularlysampledsignal E a st =
     (case st of (nixgroup, ctx) \<Rightarrow>
      case heap ctx a of
        Some (IrregularlySampledSignal irsig0) \<Rightarrow>
          andthen (assign_nix_name E ''irregularlysampledsignal'' (annotations irsig0)
                     (uuids ctx)) (\<lambda>r.
          case r of (nix_name, annots, n) \<Rightarrow>
          let irsig = irsig0\<lparr>annotations := annots\<rparr>;
              ctx1 = ctx\<lparr>uuids := n, heap := (heap ctx)(a \<mapsto> IrregularlySampledSignal irsig)\<rparr>
          in
          if find_da (nixblock ctx1) (nix_name @ ''.0'') \<noteq> None then
            Inr (nixgroup\<lparr>g_data_arrays :=
                   link_names (g_data_arrays nixgroup)
                     (collect_signal_das (nixblock ctx1) nix_name 0)\<rparr>, ctx1)
          else
            (case g_metadata nixgroup of
               None \<Rightarrow> Inl AttributeError
             | Some gm \<Rightarrow>
            andthen (create_section (secs ctx1) gm nix_name
                       ''neo.irregularlysampledsignal.metadata'') (\<lambda>ss.
            andthen (foldM (write_irregularlysampledsignal_row irsig nix_name (gm @ [nix_name]))
                       (enumerate 0 (np_transpose (fst (ir_signal irsig))))
                       (nixgroup, ctx1\<lparr>secs := ss\<rparr>, [])) (\<lambda>r2.
            case r2 of (nixgroup', ctx2, nixdas) \<Rightarrow>
            andthen (section_setitem (secs ctx2) (gm @ [nix_name]) ''neo_name''
                       (neo_name_of (name irsig))) (\<lambda>ss2.
            andthen (write_annotations annots (gm @ [nix_name]) (ctx2\<lparr>secs := ss2\<rparr>)) (\<lambda>ctx3.
              Inr (nixgroup', ctx3\<lparr>sigmap := (sigmap ctx3)(nix_name \<mapsto> nixdas)\<rparr>)))))))
      | _ \<Rightarrow> Inl AttributeError)"

subsection \<open>Events, epochs and spike trains\<close>

text \<open>
  \<^verbatim>\<open>for da in nixgroup.data_arrays: if da.type in (...): nixmt.references.append(da)\<close>.
\<close>

definition signal_references :: "nix_block \<Rightarrow> group \<Rightarrow> string list" where
  "signal_references b nixgroup =
     link_names []
       (map da_name (filter (\<lambda>da. is_signal_type (da_type da)) (group_data_arrays b nixgroup)))"

definition write_event ::
  "externals \<Rightarrow> nat \<Rightarrow> group \<times> wctx \<Rightarrow> py_error + group \<times> wctx" where
  "write_event E a st =
     (case st of (nixgroup, ctx) \<Rightarrow>
      case heap ctx a of
        Some (Event event0) \<Rightarrow>
          andthen (assign_nix_name E ''event'' (annotations event0) (uuids ctx)) (\<lambda>r.
          case r of (nix_name, annots, n) \<Rightarrow>
          let event = event0\<lparr>annotations := annots\<rparr>;
              ctx1 = ctx\<lparr>uuids := n, heap := (heap ctx)(a \<mapsto> Event event)\<rparr>
          in
          if find_mt (nixblock ctx1) nix_name \<noteq> None then
            Inr (nixgroup\<lparr>g_multi_tags := link_name (g_multi_tags nixgroup) nix_name\<rparr>, ctx1)
          else
            andthen (create_data_array (nixblock ctx1)
                       \<lparr>da_name = nix_name @ ''.times'', da_type = ''neo.event.times'',
                        da_definition = None,
                        da_unit = Some (units_to_string (snd (ev_times event))),
                        da_data = A1 (fst (ev_times event)),
                        da_dimensions = [SetDimension (ev_labels event)],
                        da_metadata = None, da_sources = []\<rparr>) (\<lambda>b1.
            (case g_metadata nixgroup of
              None \<Rightarrow> Inl AttributeError
            | Some gm \<Rightarrow>
            andthen (create_section (secs ctx1) gm nix_name ''neo.event.metadata'') (\<lambda>ss.
            andthen (section_setitem ss (gm @ [nix_name]) ''neo_name''
                       (neo_name_of (name event))) (\<lambda>ss2.
            andthen (write_annotations annots (gm @ [nix_name]) (ctx1\<lparr>secs := ss2\<rparr>)) (\<lambda>ctx2.
            andthen (create_multi_tag b1
                       \<lparr>mt_name = nix_name, mt_type = ''neo.event'',
                        mt_definition = description event,
                        mt_positions = nix_name @ ''.times'', mt_extents = None,
                        mt_features = [], mt_metadata = Some (gm @ [nix_name]),
                        mt_references = signal_references b1 nixgroup,
                        mt_sources = []\<rparr>) (\<lambda>b2.
              Inr (nixgroup\<lparr>g_multi_tags := link_name (g_multi_tags nixgroup) nix_name\<rparr>,
                   ctx2\<lparr>nixblock := b2, created := Suc (created ctx2)\<rparr>))))))))
      | _ \<Rightarrow> Inl AttributeError)"

definition write_epoch ::
  "externals \<Rightarrow> nat \<Rightarrow> group \<times> wctx \<Rightarrow> py_error + group \<times> wctx" where
  "write_epoch E a st =
     (case st of (nixgroup, ctx) \<Rightarrow>
      case heap ctx a of
        Some (Epoch epoch0) \<Rightarrow>
          andthen (assign_nix_name E ''epoch'' (annotations epoch0) (uuids ctx)) (\<lambda>r.
          case r of (nix_name, annots, n) \<Rightarrow>
          let epoch = epoch0\<lparr>annotations := annots\<rparr>;
              ctx1 = ctx\<lparr>uuids := n, heap := (heap ctx)(a \<mapsto> Epoch epoch)\<rparr>
          in
          if find_mt (nixblock ctx1) nix_name \<noteq> None then
            Inr (nixgroup\<lparr>g_multi_tags := link_name (g_multi_tags nixgroup) nix_name\<rparr>, ctx1)
          else
            andthen (create_data_array (nixblock ctx1)
                       \<lparr>da_name = nix_name @ ''.times'', da_type = ''neo.epoch.times'',
                        da_definition = None,
                        da_unit = Some (units_to_string (snd (ep_times epoch))),
                        da_data = A1 (fst (ep_times epoch)),
                        da_dimensions = [SetDimension (ep_labels epoch)],
                        da_metadata = None, da_sources = []\<rparr>) (\<lambda>b1.
            andthen (create_data_array b1
                       \<lparr>da_name = nix_name @ ''.durations'', da_type = ''neo.epoch.durations'',
                        da_definition = None,
                        da_unit = Some (units_to_string (snd (ep_durations epoch))),
                        da_data = A1 (fst (ep_durations epoch)),
                        da_dimensions = [],
                        da_metadata = None, da_sources = []\<rparr>) (\<lambda>b2.
            (case g_metadata nixgroup of
              None \<Rightarrow> Inl AttributeError
            | Some gm \<Rightarrow>
            andthen (create_section (secs ctx1) gm nix_name ''neo.epoch.metadata'') (\<lambda>ss.
            andthen (section_setitem ss (gm @ [nix_name]) ''neo_name''
                       (neo_name_of (name epoch))) (\<lambda>ss2.
            andthen (write_annotations annots (gm @ [nix_name]) (ctx1\<lparr>secs := ss2\<rparr>)) (\<lambda>ctx2.
            andthen (create_multi_tag b2
                       \<lparr>mt_name = nix_name, mt_type = ''neo.epoch'',
                        mt_definition = description epoch,
                        mt_positions = nix_name @ ''.times'',
                        mt_extents = Some (nix_name @ ''.durations''),
                        mt_features = [], mt_metadata = Some (gm @ [nix_name]),
                        mt_references = signal_references b2 nixgroup,
                        mt_sources = []\<rparr>) (\<lambda>b3.
              Inr (nixgroup\<lparr>g_multi_tags := link_name (g_multi_tags nixgroup) nix_name\<rparr>,
                   ctx2\<lparr>nixblock := b3, created := Suc (Suc (created ctx2))\<rparr>)))))))))
      | _ \<Rightarrow> Inl AttributeError)"

text \<open>
  The end of \<^verbatim>\<open>_write_spiketrain\<close>: the waveforms with their metadata section and time
  dimension, then the left sweep, which is written to the metadata of the waveforms
  array and so raises when there are no waveforms.
\<close>

definition write_waveforms ::
  "spiketrain \<Rightarrow> string \<Rightarrow> sec_ref \<Rightarrow> wctx \<Rightarrow> py_error + wctx" where
  "write_waveforms spiketrain nix_name metadata ctx =
     andthen
       (case st_waveforms spiketrain of
          None \<Rightarrow> Inr (ctx, None)
        | Some w \<Rightarrow>
            andthen (create_data_array (nixblock ctx)
                       \<lparr>da_name = nix_name @ ''.waveforms'', da_type = ''neo.waveforms'',
                        da_definition = None,
                        da_unit = Some (units_to_string (snd w)),
                        da_data = A3 (fst w),
                        da_dimensions =
                          (case st_sampling_period spiketrain of
                             None \<Rightarrow> []
                           | Some sp \<Rightarrow>
                               [SetDimension [], SetDimension [],
                                SampledDimension (fst sp) (Some (units_to_string (snd sp))) 0
                                  (Some ''time'')]),
                        da_metadata = Some (metadata @ [nix_name @ ''.waveforms'']),
                        da_sources = []\<rparr>) (\<lambda>b.
            andthen (create_section (secs ctx) metadata (nix_name @ ''.waveforms'')
                       ''neo.waveforms.metadata'') (\<lambda>ss.
            case st_sampling_period spiketrain of
              None \<Rightarrow> Inl AttributeError
            | Some sp \<Rightarrow>
                Inr (ctx\<lparr>nixblock := b, secs := ss, created := Suc (created ctx)\<rparr>,
                     Some (metadata @ [nix_name @ ''.waveforms''])))))
       (\<lambda>r. case st_left_sweep spiketrain of
               None \<Rightarrow> Inr (fst r)
             | Some ls \<Rightarrow>
                 (case snd r of
                    None \<Rightarrow> Inl NameError
                  | Some wfmd \<Rightarrow> write_property (fst r) wfmd ''left_sweep'' ls))"

definition write_spiketrain ::
  "externals \<Rightarrow> nat \<Rightarrow> group \<times> wctx \<Rightarrow> py_error + group \<times> wctx" where
  "write_spiketrain E a st =
     (case st of (nixgroup, ctx) \<Rightarrow>
      case heap ctx a of
        Some (SpikeTrain spiketrain0) \<Rightarrow>
          andthen (assign_nix_name E ''spiketrain'' (annotations spiketrain0) (uuids ctx)) (\<lambda>r.
          case r of (nix_name, annots, n) \<Rightarrow>
          let spiketrain = spiketrain0\<lparr>annotations := annots\<rparr>;
              ctx1 = ctx\<lparr>uuids := n, heap := (heap ctx)(a \<mapsto> SpikeTrain spiketrain)\<rparr>
          in
          if find_mt (nixblock ctx1) nix_name \<noteq> None then
            Inr (nixgroup\<lparr>g_multi_tags := link_name (g_multi_tags nixgroup) nix_name\<rparr>, ctx1)
          else
            andthen (create_data_array (nixblock ctx1)
                       \<lparr>da_name = nix_name @ ''.times'', da_type = ''neo.spiketrain.times'',
                        da_definition = None,
                        da_unit = Some (units_to_string (snd (st_times spiketrain))),
                        da_data = A1 (fst (st_times spiketrain)),
                        da_dimensions = [],
                        da_metadata = None, da_sources = []\<rparr>) (\<lambda>b1.
            (case g_metadata nixgroup of
              None \<Rightarrow> Inl AttributeError
            | Some gm \<Rightarrow>
            andthen (create_section (secs ctx1) gm nix_name ''neo.spiketrain.metadata'') (\<lambda>ss.
            andthen (section_setitem ss (gm @ [nix_name]) ''neo_name''
                       (neo_name_of (name spiketrain))) (\<lambda>ss2.
            andthen (write_property (ctx1\<lparr>secs := ss2\<rparr>) (gm @ [nix_name]) ''t_start''
                       (st_t_start spiketrain)) (\<lambda>ctx2.
            andthen (write_property ctx2 (gm @ [nix_name]) ''t_stop''
                       (st_t_stop spiketrain)) (\<lambda>ctx3.
            andthen (write_annotations annots (gm @ [nix_name]) ctx3) (\<lambda>ctx4.
            andthen (create_multi_tag b1
                       \<lparr>mt_name = nix_name, mt_type = ''neo.spiketrain'',
                        mt_definition = description spiketrain,
                        mt_positions = nix_name @ ''.times'', mt_extents = None,
                        mt_features =
                          (case st_waveforms spiketrain of
                             None \<Rightarrow> [] | Some w \<Rightarrow> [nix_name @ ''.waveforms'']),
                        mt_metadata = Some (gm @ [nix_name]),
                        mt_references = [], mt_sources = []\<rparr>) (\<lambda>b2.
            andthen (write_waveforms spiketrain nix_name (gm @ [nix_name])
                       (ctx4\<lparr>nixblock := b2, created := Suc (created ctx4)\<rparr>)) (\<lambda>ctx5.
              Inr (nixgroup\<lparr>g_multi_tags := link_name (g_multi_tags nixgroup) nix_name\<rparr>,
                   ctx5)))))))))))
      | _ \<Rightarrow> Inl AttributeError)"

subsection \<open>Segments\<close>

definition put_group :: "group \<Rightarrow> nix_block \<Rightarrow> nix_block" where
  "put_group g b =
     (if find (\<lambda>x. g_name x = g_name g) (b_groups b) \<noteq> None
      then b\<lparr>b_groups := map (\<lambda>x. if g_name x = g_name g then g else x) (b_groups b)\<rparr>
      else b\<lparr>b_groups := b_groups b @ [g]\<rparr>)"

text \<open>
  The group of a segment: the existing group of that name, or a new one with its
  metadata section under the metadata of the block.
\<close>

definition group_for :: "string \<Rightarrow> wctx \<Rightarrow> py_error + group \<times> wctx" where
  "group_for nix_name ctx =
     (case find (\<lambda>x. g_name x = nix_name) (b_groups (nixblock ctx)) of
        Some g \<Rightarrow> Inr (g, ctx)
      | None \<Rightarrow>
          (case b_metadata (nixblock ctx) of
             None \<Rightarrow> Inl AttributeError
           | Some bm \<Rightarrow>
               andthen (create_section (secs ctx) bm nix_name ''neo.segment.metadata'') (\<lambda>ss.
                 Inr (\<lparr>g_name = nix_name, g_type = ''neo.segment'', g_definition = None,
                       g_created_at = now ctx, g_metadata = Some (bm @ [nix_name]),
                       g_data_arrays = [], g_multi_tags = []\<rparr>,
                      ctx\<lparr>secs := ss\<rparr>))))"

definition write_segment ::
  "externals \<Rightarrow> nat segment \<Rightarrow> wctx \<Rightarrow> py_error + nat segment \<times> wctx" where
  "write_segment E segment0 ctx =
     andthen (assign_nix_name E ''segment'' (annotations segment0) (uuids ctx)) (\<lambda>r.
     case r of (nix_name, annots, n) \<Rightarrow>
     let segment = segment0\<lparr>annotations := annots\<rparr> in
     andthen (group_for nix_name (ctx\<lparr>uuids := n\<rparr>)) (\<lambda>gc.
     case g_metadata (fst gc) of
       None \<Rightarrow> Inl AttributeError
     | Some metadata \<Rightarrow>
     andthen (section_setitem (secs (snd gc)) metadata ''neo_name''
                (neo_name_of (name segment))) (\<lambda>ss.
     andthen (case seg_file_datetime segment of
                None \<Rightarrow> Inr ss
              | Some dt \<Rightarrow> section_setitem ss metadata ''file_datetime'' (PyDatetime dt)) (\<lambda>ss2.
     andthen (write_annotations annots metadata ((snd gc)\<lparr>secs := ss2\<rparr>)) (\<lambda>ctx2.
     andthen (foldM (write_analogsignal E) (analogsignals segment)
                ((fst gc)\<lparr>g_definition := description segment,
                           g_created_at := (case seg_rec_datetime segment of
                                              None \<Rightarrow> g_created_at (fst gc)
                                            | Some dt \<Rightarrow> calculate_timestamp dt)\<rparr>,
                 ctx2)) (\<lambda>st1.
     andthen (foldM (write_irregularlysampledsignal E) (irregularlysampledsignals segment) st1) (\<lambda>st2.
     andthen (foldM (write_event E) (events segment) st2) (\<lambda>st3.
     andthen (foldM (write_epoch E) (epochs segment) st3) (\<lambda>st4.
     andthen (foldM (write_spiketrain E) (spiketrains segment) st4) (\<lambda>st5.
       Inr (segment, (snd st5)\<lparr>nixblock := put_group (fst st5) (nixblock (snd st5))\<rparr>)))))))))))"

subsection \<open>Channel indexes and units\<close>

definition find_source :: "source list \<Rightarrow> string \<Rightarrow> source option" where
  "find_source srcs n = find (\<lambda>x. src_name x = n) srcs"

definition put_source :: "source \<Rightarrow> source list \<Rightarrow> source list" where
  "put_source x srcs =
     (if find_source srcs (src_name x) \<noteq> None
      then map (\<lambda>y. if src_name y = src_name x then x else y) srcs
      else srcs @ [x])"

text \<open>
  The source of an object under a parent: the existing source of that name, or a new
  one with its metadata section under the metadata of the parent.
\<close>

definition source_for ::
  "source list \<Rightarrow> sec_ref option \<Rightarrow> string \<Rightarrow> string \<Rightarrow> wctx \<Rightarrow> py_error + source \<times> wctx" where
  "source_for siblings parent_md nix_name ty ctx =
     (case find_source siblings nix_name of
        Some x \<Rightarrow> Inr (x, ctx)
      | None \<Rightarrow>
          (case parent_md of
             None \<Rightarrow> Inl AttributeError
           | Some pm \<Rightarrow>
               andthen (create_section (secs ctx) pm nix_name (ty @ ''.metadata'')) (\<lambda>ss.
                 Inr (Source nix_name ty None (Some (pm @ [nix_name])) [], ctx\<lparr>secs := ss\<rparr>))))"

definition write_unit ::
  "externals \<Rightarrow> nat neo_unit \<Rightarrow> source \<times> wctx \<Rightarrow> py_error + nat neo_unit \<times> source \<times> wctx" where
  "write_unit E neounit0 st =
     (case st of (nixchxsource, ctx) \<Rightarrow>
      andthen (assign_nix_name E ''unit'' (annotations neounit0) (uuids ctx)) (\<lambda>r.
      case r of (nix_name, annots, n) \<Rightarrow>
      andthen (source_for (src_sources nixchxsource) (src_metadata nixchxsource) nix_name
                 ''neo.unit'' (ctx\<lparr>uuids := n\<rparr>)) (\<lambda>sc.
      case src_metadata (fst sc) of
        None \<Rightarrow> Inl TypeError
      | Some metadata \<Rightarrow>
      andthen (section_setitem (secs (snd sc)) metadata ''neo_name''
                 (neo_name_of (name neounit0))) (\<lambda>ss.
      andthen (write_annotations annots metadata ((snd sc)\<lparr>secs := ss\<rparr>)) (\<lambda>ctx2.
        Inr (neounit0\<lparr>annotations := annots\<rparr>,
             Source (src_name nixchxsource) (src_type nixchxsource)
               (src_definition nixchxsource) (src_metadata nixchxsource)
               (put_source
                  (Source (src_name (fst sc)) (src_type (fst sc)) (description neounit0)
                     (src_metadata (fst sc)) (src_sources (fst sc)))
                  (src_sources nixchxsource)),
             ctx2))))))"

definition py_nth :: "'a list \<Rightarrow> nat \<Rightarrow> py_error + 'a" where
  "py_nth xs i = (if i < length xs then Inr (xs ! i) else Inl IndexError)"

text \<open>\<^verbatim>\<open>del section[key]\<close> when the key is there, then \<^verbatim>\<open>create_property\<close>.\<close>

definition replace_property ::
  "(sec_ref \<rightharpoonup> nix_section) \<Rightarrow> sec_ref \<Rightarrow> string \<Rightarrow> nix_value list \<Rightarrow> string option
     \<Rightarrow> py_error + (sec_ref \<rightharpoonup> nix_section)" where
  "replace_property ss p k vals u =
     (case ss p of
        None \<Rightarrow> Inl AttributeError
      | Some sec \<Rightarrow>
          Inr (ss(p \<mapsto> sec\<lparr>props :=
                 AList.delete k (props sec) @ [(k, \<lparr>prop_values = vals, prop_unit = u\<rparr>)]\<rparr>)))"

text \<open>One pass of the loop over \<^verbatim>\<open>chx.index\<close>: the child source of one channel.\<close>

definition write_channel ::
  "externals \<Rightarrow> nat channelindex \<Rightarrow> string \<Rightarrow> nat \<times> int \<Rightarrow> source \<times> wctx
     \<Rightarrow> py_error + source \<times> wctx" where
  "write_channel E chx nix_name r st =
     (case st of (nixsource, ctx) \<Rightarrow>
      andthen (source_for (src_sources nixsource) (src_metadata nixsource)
                 (nix_name @ ''.ChannelIndex'' @ str_nat (fst r)) ''neo.channelindex'' ctx) (\<lambda>sc.
      case src_metadata (fst sc) of
        None \<Rightarrow> Inl TypeError
      | Some chanmd \<Rightarrow>
      andthen (section_setitem (secs (snd sc)) chanmd ''index'' (PyInt (snd r))) (\<lambda>ss1.
      andthen (if channel_names chx = [] then Inr ss1
               else andthen (py_nth (channel_names chx) (fst r)) (\<lambda>cn.
                      section_setitem ss1 chanmd ''neo_name'' (stringify E cn))) (\<lambda>ss2.
      andthen (if channel_ids chx = [] then Inr ss2
               else andthen (py_nth (channel_ids chx) (fst r)) (\<lambda>ci.
                      section_setitem ss2 chanmd ''channel_id'' (PyInt ci))) (\<lambda>ss3.
      andthen (case coordinates chx of
                 None \<Rightarrow> Inr ss3
               | Some cs \<Rightarrow>
                   andthen (py_nth (fst cs) (fst r)) (\<lambda>coords.
                     if coords = [] then Inl IndexError
                     else replace_property ss3 chanmd ''coordinates'' (map VFloat coords)
                            (Some (dimensionality_str (snd cs))))) (\<lambda>ss4.
        Inr (Source (src_name nixsource) (src_type nixsource) (src_definition nixsource)
               (src_metadata nixsource)
               (put_source
                  (Source (src_name (fst sc)) (src_type (fst sc)) (src_definition nixsource)
                     (src_metadata (fst sc)) (src_sources (fst sc)))
                  (src_sources nixsource)),
             (snd sc)\<lparr>secs := ss4\<rparr>)))))))"

definition write_channelindex ::
  "externals \<Rightarrow> nat channelindex \<Rightarrow> wctx \<Rightarrow> py_error + nat channelindex \<times> wctx" where
  "write_channelindex E chx0 ctx =
     andthen (assign_nix_name E ''channelindex'' (annotations chx0) (uuids ctx)) (\<lambda>r.
     case r of (nix_name, annots, n) \<Rightarrow>
     let chx = chx0\<lparr>annotations := annots\<rparr> in
     andthen (source_for (b_sources (nixblock ctx)) (b_metadata (nixblock ctx)) nix_name
                ''neo.channelindex'' (ctx\<lparr>uuids := n\<rparr>)) (\<lambda>sc.
     case src_metadata (fst sc) of
       None \<Rightarrow> Inl TypeError
     | Some metadata \<Rightarrow>
     andthen (section_setitem (secs (snd sc)) metadata ''neo_name''
                (neo_name_of (name chx))) (\<lambda>ss.
     andthen (write_annotations annots metadata ((snd sc)\<lparr>secs := ss\<rparr>)) (\<lambda>ctx2.
     andthen (foldM (write_channel E chx nix_name) (enumerate 0 (chx_index chx))
                (Source (src_name (fst sc)) (src_type (fst sc)) (description chx)
                   (src_metadata (fst sc)) (src_sources (fst sc)), ctx2)) (\<lambda>st1.
     andthen (map_writer (\<lambda>u st. andthen (write_unit E u st) (\<lambda>x. Inr (fst x, snd x)))
                (units chx) st1) (\<lambda>us.
       Inr (chx\<lparr>units := fst us\<rparr>,
            (snd (snd us))\<lparr>nixblock :=
               (nixblock (snd (snd us)))\<lparr>b_sources :=
                  put_source (fst (snd us)) (b_sources (nixblock (snd (snd us))))\<rparr>\<rparr>)))))))"

subsection \<open>Links to the sources\<close>

text \<open>\<^verbatim>\<open>obj.annotations["nix_name"]\<close> of a leaf object on the heap.\<close>

fun leaf_annotations :: "leaf \<Rightarrow> (string \<times> pyval) list" where
  "leaf_annotations (AnalogSignal x) = annotations x"
| "leaf_annotations (IrregularlySampledSignal x) = annotations x"
| "leaf_annotations (Event x) = annotations x"
| "leaf_annotations (Epoch x) = annotations x"
| "leaf_annotations (SpikeTrain x) = annotations x"

definition annotated_name :: "(string \<times> pyval) list \<Rightarrow> py_error + string" where
  "annotated_name annots =
     (case map_of annots ''nix_name'' of
        None \<Rightarrow> Inl KeyError
      | Some (PyStr n) \<Rightarrow> Inr n
      | Some v \<Rightarrow> Inl TypeError)"

definition leaf_nix_name :: "(nat \<rightharpoonup> leaf) \<Rightarrow> nat \<Rightarrow> py_error + string" where
  "leaf_nix_name h a =
     (case h a of None \<Rightarrow> Inl AttributeError | Some l \<Rightarrow> annotated_name (leaf_annotations l))"

definition add_da_source :: "string \<Rightarrow> string \<Rightarrow> nix_block \<Rightarrow> nix_block" where
  "add_da_source src daname b =
     b\<lparr>b_data_arrays :=
        map (\<lambda>d. if da_name d = daname then d\<lparr>da_sources := link_name (da_sources d) src\<rparr> else d)
          (b_data_arrays b)\<rparr>"

definition add_mt_sources :: "string list \<Rightarrow> string \<Rightarrow> nix_block \<Rightarrow> nix_block" where
  "add_mt_sources srcs mtname b =
     b\<lparr>b_multi_tags :=
        map (\<lambda>m. if mt_name m = mtname then m\<lparr>mt_sources := link_names (mt_sources m) srcs\<rparr> else m)
          (b_multi_tags b)\<rparr>"

definition link_signal :: "string \<Rightarrow> string \<Rightarrow> wctx \<Rightarrow> py_error + wctx" where
  "link_signal chxname signame ctx =
     (case sigmap ctx signame of
        None \<Rightarrow> Inl KeyError
      | Some das \<Rightarrow> Inr (ctx\<lparr>nixblock := fold (add_da_source chxname) das (nixblock ctx)\<rparr>))"

definition link_spiketrain :: "string \<Rightarrow> string \<Rightarrow> nat \<Rightarrow> wctx \<Rightarrow> py_error + wctx" where
  "link_spiketrain chxname unitname st ctx =
     andthen (leaf_nix_name (heap ctx) st) (\<lambda>stname.
       if find_mt (nixblock ctx) stname = None then Inl KeyError
       else Inr (ctx\<lparr>nixblock := add_mt_sources [chxname, unitname] stname (nixblock ctx)\<rparr>))"

definition link_unit :: "source \<Rightarrow> nat neo_unit \<Rightarrow> wctx \<Rightarrow> py_error + wctx" where
  "link_unit chxsource u ctx =
     andthen (annotated_name (annotations u)) (\<lambda>unitname.
       if find_source (src_sources chxsource) unitname = None then Inl KeyError
       else foldM (link_spiketrain (src_name chxsource) unitname) (unit_spiketrains u) ctx)"

definition link_channelindex :: "nat channelindex \<Rightarrow> wctx \<Rightarrow> py_error + wctx" where
  "link_channelindex chx ctx =
     andthen (mapM (leaf_nix_name (heap ctx))
                (chx_analogsignals chx @ chx_irregularlysampledsignals chx)) (\<lambda>signames.
     andthen (annotated_name (annotations chx)) (\<lambda>chxname.
     case find_source (b_sources (nixblock ctx)) chxname of
       None \<Rightarrow> Inl KeyError
     | Some chxsource \<Rightarrow>
         andthen (foldM (link_signal chxname) signames ctx) (\<lambda>ctx1.
           foldM (link_unit chxsource) (units chx) ctx1)))"

definition create_source_links :: "nat block \<Rightarrow> wctx \<Rightarrow> py_error + wctx" where
  "create_source_links neoblock ctx = foldM link_channelindex (channel_indexes neoblock) ctx"

subsection \<open>Blocks\<close>

text \<open>
  \<^verbatim>\<open>del self.nix_file.blocks[nix_name]; del self.nix_file.sections[nix_name]\<close>: the
  block goes with everything it contains, the section with its subsections.
\<close>

definition delete_block :: "string \<Rightarrow> nix_file \<Rightarrow> py_error + nix_file" where
  "delete_block nix_name f =
     (case sections f [nix_name] of
        None \<Rightarrow> Inl KeyError
      | Some sec \<Rightarrow>
          Inr (f\<lparr>blocks := filter (\<lambda>b. b_name b \<noteq> nix_name) (blocks f),
                 sections := (\<lambda>p. if p \<noteq> [] \<and> hd p = nix_name then None else sections f p)\<rparr>))"

text \<open>
  The context in which the content of a block is written: the new, empty NIX block
  with its definition, its creation time and its metadata section, the sections of
  the file, and the state of the IO.
\<close>

definition new_block_ctx ::
  "string \<Rightarrow> nat block \<Rightarrow> nix_file \<Rightarrow> (sec_ref \<rightharpoonup> nix_section) \<Rightarrow> nat \<Rightarrow> nixio
     \<Rightarrow> (nat \<rightharpoonup> leaf) \<Rightarrow> wctx" where
  "new_block_ctx nix_name block f ss n io h =
     \<lparr>nixblock =
        \<lparr>b_name = nix_name, b_type = ''neo.block'',
         b_definition = description block,
         b_created_at = (case rec_datetime block of
                           None \<Rightarrow> clock f
                         | Some dt \<Rightarrow> calculate_timestamp dt),
         b_metadata = Some [nix_name], b_groups = [], b_data_arrays = [],
         b_multi_tags = [], b_sources = []\<rparr>,
      secs = ss, sigmap = signal_map io, uuids = n, warns = warnings io,
      created = arrays_created io,
      now = clock f, heap = h\<rparr>"

text \<open>
  \<^verbatim>\<open>write_block\<close> takes the Block, the heap that holds its leaf objects and the state
  of the IO, and returns them as the call leaves them: the objects with the
  identifiers it attached, the file with the block written. When the file has a
  block of that name already, the block is deleted and written anew.
\<close>

definition write_block ::
  "externals \<Rightarrow> nat block \<Rightarrow> (nat \<rightharpoonup> leaf) \<Rightarrow> nixio
     \<Rightarrow> py_error + nat block \<times> (nat \<rightharpoonup> leaf) \<times> nixio" where
  "write_block E block0 h io =
     andthen (assign_nix_name E ''block'' (annotations block0) (uuid_count io)) (\<lambda>r.
     case r of (nix_name, annots, n) \<Rightarrow>
     let block = block0\<lparr>annotations := annots\<rparr> in
     andthen (if find_block (nix_file io) nix_name \<noteq> None
              then delete_block nix_name (nix_file io) else Inr (nix_file io)) (\<lambda>f.
     andthen (create_section (sections f) [] nix_name ''neo.block.metadata'') (\<lambda>ss.
     andthen (section_setitem ss [nix_name] ''neo_name'' (neo_name_of (name block))) (\<lambda>ss1.
     andthen (case file_datetime block of
                None \<Rightarrow> Inr ss1
              | Some dt \<Rightarrow> section_setitem ss1 [nix_name] ''file_datetime'' (PyDatetime dt)) (\<lambda>ss2.
     andthen (write_annotations annots [nix_name]
                (new_block_ctx nix_name block f ss2 n io h)) (\<lambda>ctx.
     andthen (map_writer (write_segment E) (segments block) (ctx\<lparr>sigmap := Map.empty\<rparr>)) (\<lambda>sr.
     andthen (map_writer (write_channelindex E) (channel_indexes block) (snd sr)) (\<lambda>cr.
     andthen (create_source_links (block\<lparr>segments := fst sr, channel_indexes := fst cr\<rparr>)
                (snd cr)) (\<lambda>ctx'.
       Inr (block\<lparr>segments := fst sr, channel_indexes := fst cr\<rparr>,
            heap ctx',
            io\<lparr>nix_file := f\<lparr>blocks := blocks f @ [nixblock ctx'], sections := secs ctx'\<rparr>,
               signal_map := sigmap ctx', uuid_count := uuids ctx',
               warnings := warns ctx', arrays_created := created ctx'\<rparr>))))))))))"

section \<open>Example inputs\<close>

text \<open>
  Concrete collaborators and stores on which the theorems below are instantiated:
  identifiers are drawn as the decimal numbers 0, 1, 2, ...
\<close>

definition example_externals :: externals where
  "example_externals =
     \<lparr>py_str = (\<lambda>v. ''?''), md5_hexdigest = (\<lambda>cs. []), uuid4_hex = str_nat,
      rescale_factor = (\<lambda>u s. None)\<rparr>"

definition empty_io :: nixio where
  "empty_io =
     \<lparr>nix_file = \<lparr>blocks = [], sections = Map.empty, clock = 0\<rparr>, block_read_counter = 0,
      signal_map = Map.empty, uuid_count = 0, warnings = 0, arrays_created = 0\<rparr>"

definition bare_block :: "string \<Rightarrow> nix_block" where
  "bare_block n =
     \<lparr>b_name = n, b_type = ''neo.block'', b_definition = None, b_created_at = 0,
      b_metadata = None, b_groups = [], b_data_arrays = [], b_multi_tags = [],
      b_sources = []\<rparr>"

definition two_block_io :: nixio where
  "two_block_io =
     empty_io\<lparr>nix_file := \<lparr>blocks = [bare_block ''first'', bare_block ''second''],
                              sections = Map.empty, clock = 0\<rparr>\<rparr>"





definition eleven_signal :: analogsignal where
  "eleven_signal =
     \<lparr>name = Some ''sig'', description = None, annotations = [],
      signal = ([[0, 1, 2, 3, 4, 5, 6, 7, 8, 9, 10]], Unit ''mV''),
      t_start = (0, Unit ''s''), sampling_period = (1, Unit ''s'')\<rparr>"

definition one_segment :: "nat list \<Rightarrow> nat segment" where
  "one_segment sigs =
     \<lparr>name = Some ''seg'', description = None, annotations = [],
      seg_rec_datetime = None, seg_file_datetime = None,
      analogsignals = sigs, irregularlysampledsignals = [], events = [], epochs = [],
      spiketrains = []\<rparr>"

definition block_of :: "nat segment list \<Rightarrow> nat channelindex list \<Rightarrow> nat block" where
  "block_of segs chxs =
     \<lparr>name = Some ''blk'', description = None, annotations = [],
      rec_datetime = None, file_datetime = None, segments = segs, channel_indexes = chxs\<rparr>"

fun signal_matrix :: "leaf \<Rightarrow> real list list" where
  "signal_matrix (AnalogSignal a) = fst (signal a)"
| "signal_matrix (IrregularlySampledSignal a) = fst (ir_signal a)"
| "signal_matrix l = []"

text \<open>Writing a block into the empty file and reading the first block back.\<close>

definition write_then_read ::
  "externals \<Rightarrow> nat block \<Rightarrow> (nat \<rightharpoonup> leaf) \<Rightarrow> py_error + leaf block option" where
  "write_then_read E b h =
     (case write_block E b h empty_io of
        Inl e \<Rightarrow> Inl e
      | Inr r \<Rightarrow> fst (read_block E None None None False (snd (snd r))))"

definition two_channel_signal :: analogsignal where
  "two_channel_signal =
     \<lparr>name = Some ''sig'', description = None, annotations = [],
      signal = ([[1, 2], [3, 4]], Unit ''mV''),
      t_start = (0, Unit ''s''), sampling_period = (1, Unit ''s'')\<rparr>"

text \<open>The file with the metadata link of one data array pointed at another section.\<close>

definition redirect_metadata :: "string \<Rightarrow> sec_ref \<Rightarrow> nixio \<Rightarrow> nixio" where
  "redirect_metadata daname sect io =
     io\<lparr>nix_file := (nix_file io)\<lparr>blocks :=
        map (\<lambda>b. b\<lparr>b_data_arrays :=
                    map (\<lambda>d. if da_name d = daname then d\<lparr>da_metadata := Some sect\<rparr> else d)
                      (b_data_arrays b)\<rparr>)
          (blocks (nix_file io))\<rparr>\<rparr>"

definition example_channelindex :: "nat list \<Rightarrow> nat channelindex" where
  "example_channelindex sigs =
     \<lparr>name = Some ''chx'', description = None, annotations = [],
      chx_index = [0, 1], channel_names = [], channel_ids = [], coordinates = None,
      chx_analogsignals = sigs, chx_irregularlysampledsignals = [], units = []\<rparr>"

text \<open>
  An object has its identifier when its annotations hold a \<^verbatim>\<open>nix_name\<close> that is
  text. A Segment is named when it and its leaf objects are, a ChannelIndex when it
  and its Units are, a Block when it and all of these are.
\<close>

definition has_nix_name :: "(string \<times> pyval) list \<Rightarrow> bool" where
  "has_nix_name annots =
     (case map_of annots ''nix_name'' of Some (PyStr n) \<Rightarrow> True | _ \<Rightarrow> False)"

definition named_leaf :: "(nat \<rightharpoonup> leaf) \<Rightarrow> nat \<Rightarrow> bool" where
  "named_leaf h a = (case h a of None \<Rightarrow> False | Some l \<Rightarrow> has_nix_name (leaf_annotations l))"

definition segment_leaves :: "'r segment \<Rightarrow> 'r list" where
  "segment_leaves s =
     analogsignals s @ irregularlysampledsignals s @ events s @ epochs s @ spiketrains s"

definition named_segment :: "(nat \<rightharpoonup> leaf) \<Rightarrow> nat segment \<Rightarrow> bool" where
  "named_segment h s = (has_nix_name (annotations s) \<and> list_all (named_leaf h) (segment_leaves s))"



fun with_annotations :: "leaf \<Rightarrow> (string \<times> pyval) list \<Rightarrow> leaf" where
  "with_annotations (AnalogSignal x) an = AnalogSignal (x\<lparr>annotations := an\<rparr>)"
| "with_annotations (IrregularlySampledSignal x) an = IrregularlySampledSignal (x\<lparr>annotations := an\<rparr>)"
| "with_annotations (Event x) an = Event (x\<lparr>annotations := an\<rparr>)"
| "with_annotations (Epoch x) an = Epoch (x\<lparr>annotations := an\<rparr>)"
| "with_annotations (SpikeTrain x) an = SpikeTrain (x\<lparr>annotations := an\<rparr>)"

text \<open>What a step of a write leaves alone: the heap and the identifier count.\<close>

definition same_objects :: "wctx \<Rightarrow> wctx \<Rightarrow> bool" where
  "same_objects c c' = (heap c' = heap c \<and> uuids c' = uuids c)"


text \<open>An object that has its identifier is the same object afterwards.\<close>

definition names_kept :: "(nat \<rightharpoonup> leaf) \<Rightarrow> (nat \<rightharpoonup> leaf) \<Rightarrow> bool" where
  "names_kept h h' = (\<forall>a. named_leaf h a \<longrightarrow> h' a = h a)"






section \<open>Properties\<close>

subsection \<open>Reading a block\<close>

lemma andthen_simps [simp]:
  "andthen (Inl e) k = Inl e" "andthen (Inr x) k = k x"
  by (simp_all add: andthen_def)

lemma andthen_Inr_iff: "andthen m k = Inr r \<longleftrightarrow> (\<exists>x. m = Inr x \<and> k x = Inr r)"
  by (cases m) simp_all

lemma read_block_result:
  assumes "read_block E index nixname neoname lazy io = (Inr (Some b), io')"
  shows "\<exists>nb. py_index (blocks (nix_file io)) (int (block_read_counter io)) = Inr nb
            \<and> nix_to_neo_block E (nix_file io) nb = Inr b
            \<and> io' = io\<lparr>block_read_counter := block_read_counter io + 1\<rparr>"
  using assms
  by (auto simp: read_block_def split: if_splits sum.splits option.splits)

text \<open>
  Claim C10. Whenever \<^verbatim>\<open>read_block\<close> returns a Block, whatever selection argument
  (index, nixname, neoname) was given, the Block is the conversion of the block at
  the position of \<^verbatim>\<open>_block_read_counter\<close>, and the counter has been incremented by
  one. Any other choice of arguments for which the call returns a Block returns the
  same Block and leaves the same state: the arguments only decide whether a lookup
  error is raised.
\<close>

theorem read_block_returns_block_at_counter:
  assumes "read_block E index nixname neoname lazy io = (Inr (Some b), io')"
  shows "(\<exists>nb. py_index (blocks (nix_file io)) (int (block_read_counter io)) = Inr nb
              \<and> nix_to_neo_block E (nix_file io) nb = Inr b)
         \<and> io' = io\<lparr>block_read_counter := block_read_counter io + 1\<rparr>
         \<and> (\<forall>index2 nixname2 neoname2 lazy2 b2 io2.
               read_block E index2 nixname2 neoname2 lazy2 io = (Inr (Some b2), io2)
               \<longrightarrow> b2 = b \<and> io2 = io')"
proof -
  from read_block_result[OF assms] obtain nb where
    nb: "py_index (blocks (nix_file io)) (int (block_read_counter io)) = Inr nb"
        "nix_to_neo_block E (nix_file io) nb = Inr b"
        "io' = io\<lparr>block_read_counter := block_read_counter io + 1\<rparr>"
    by blast
  have "b2 = b \<and> io2 = io'"
    if "read_block E index2 nixname2 neoname2 lazy2 io = (Inr (Some b2), io2)"
    for index2 nixname2 neoname2 lazy2 b2 io2
    using read_block_result[OF that] nb by auto
  with nb show ?thesis by blast
qed

theorem read_block_returns_block_at_counter_witness:
  "\<exists>b io'. read_block example_externals (Some 1) (Some ''second'') None False two_block_io
              = (Inr (Some b), io')
     \<and> nix_to_neo_block example_externals (nix_file two_block_io) (bare_block ''first'') = Inr b
     \<and> block_read_counter io' = 1"
proof -
  have r: "read_block example_externals (Some 1) (Some ''second'') None False two_block_io
       = (Inr (Some \<lparr>name = None, description = None,
                      annotations = [(''nix_name'', PyStr ''first'')],
                      rec_datetime = Some \<lparr>posix_seconds = 0, microsecond = 0\<rparr>,
                      file_datetime = None, segments = [], channel_indexes = []\<rparr>),
          two_block_io\<lparr>block_read_counter := 1\<rparr>)"
    by (simp add: read_block_def select_block_def two_block_io_def empty_io_def bare_block_def
          py_index_def nix_to_neo_block_def nix_attr_to_neo_def metadata_of_def stringify_def
          neo_kwargs_def attrs_str_def attrs_datetime_def fromtimestamp_def)
  from read_block_returns_block_at_counter[OF r]
  have "\<exists>nb. py_index (blocks (nix_file two_block_io)) (int (block_read_counter two_block_io)) = Inr nb
              \<and> nix_to_neo_block example_externals (nix_file two_block_io) nb = Inr \<lparr>name = None, description = None,
                      annotations = [(''nix_name'', PyStr ''first'')],
                      rec_datetime = Some \<lparr>posix_seconds = 0, microsecond = 0\<rparr>,
                      file_datetime = None, segments = [], channel_indexes = []\<rparr>"
    by (rule conjunct1)
  then have "nix_to_neo_block example_externals (nix_file two_block_io) (bare_block ''first'') = Inr \<lparr>name = None, description = None,
                      annotations = [(''nix_name'', PyStr ''first'')],
                      rec_datetime = Some \<lparr>posix_seconds = 0, microsecond = 0\<rparr>,
                      file_datetime = None, segments = [], channel_indexes = []\<rparr>"
    by (simp add: two_block_io_def empty_io_def py_index_def)
  with r show ?thesis by simp
qed

subsection \<open>Content hashes\<close>

text \<open>
  Claim C3. The hash of an object is computed from its own name, description,
  annotations, type-specific attributes and data only: replacing the children of a
  Block, a Segment, a ChannelIndex or a Unit by any others leaves the hash
  unchanged.
\<close>

theorem hash_object_ignores_children:
  "hash_object E (OBlock (b\<lparr>segments := ss, channel_indexes := cs\<rparr>)) = hash_object E (OBlock b)
   \<and> hash_object E (OSegment (s\<lparr>analogsignals := l1, irregularlysampledsignals := l2,
          events := l3, epochs := l4, spiketrains := l5\<rparr>)) = hash_object E (OSegment s)
   \<and> hash_object E (OChannelIndex (c\<lparr>units := us, chx_analogsignals := l6,
          chx_irregularlysampledsignals := l7\<rparr>)) = hash_object E (OChannelIndex c)
   \<and> hash_object E (OUnit (u\<lparr>unit_spiketrains := l8\<rparr>)) = hash_object E (OUnit u)"
  by (simp add: hash_object_def)

subsection \<open>Annotations that are not supported\<close>







subsection \<open>Reassembling signals\<close>

text \<open>
  Claim C7. The arrays of a signal are sorted by name, as text: with eleven channels
  the array \<^verbatim>\<open>base.10\<close> comes before \<^verbatim>\<open>base.2\<close>. A signal of one sample whose
  channel \<open>i\<close> holds the value \<open>i\<close> is written and read back: the third channel of
  the result holds 10.
\<close>

theorem eleven_channels_read_out_of_order:
  "(case write_then_read example_externals (block_of [one_segment [0]] []) [0 \<mapsto> AnalogSignal eleven_signal] of
    Inr (Some r) \<Rightarrow> map (\<lambda>s. map signal_matrix (analogsignals s)) (segments r)
  | _ \<Rightarrow> []) = [[[[0, 1, 10, 2, 3, 4, 5, 6, 7, 8, 9]]]]"
  by code_simp

text \<open>
  Claim C5. A signal of two channels is written, and the metadata link of its
  second array is pointed at the section of the segment. The two arrays then
  reference different metadata records, and \<^verbatim>\<open>read_block\<close> still returns the
  reassembled matrix: \<^verbatim>\<open>_nix_to_neo_analogsignal\<close> looks at the metadata of the first
  array only.
\<close>

theorem divergent_metadata_is_read_silently:
  "(case write_block example_externals (block_of [one_segment [0]] [])
              [0 \<mapsto> AnalogSignal two_channel_signal] empty_io of
        Inl e \<Rightarrow> False
      | Inr r \<Rightarrow>
          (let io = redirect_metadata ''neo.analogsignal.2.1'' [''neo.block.0'', ''neo.segment.1'']
                      (snd (snd r))
           in concat (map (\<lambda>b. map da_metadata (b_data_arrays b)) (blocks (nix_file io)))
                = [Some [''neo.block.0'', ''neo.segment.1'', ''neo.analogsignal.2''],
                   Some [''neo.block.0'', ''neo.segment.1'']]
              \<and> (case fst (read_block example_externals None None None False io) of
                    Inr (Some b) \<Rightarrow>
                      map (\<lambda>s. map signal_matrix (analogsignals s)) (segments b)
                        = [[[[1, 2], [3, 4]]]]
                  | _ \<Rightarrow> False)))"
  by code_simp

subsection \<open>Channel indexes\<close>

lemma nix_to_neo_block_no_channel_indexes:
  "nix_to_neo_block E f nb = Inr b \<Longrightarrow> channel_indexes b = []"
  by (auto simp: nix_to_neo_block_def split: sum.splits)

text \<open>
  Claim C8. A Block whose two Segments hold the same AnalogSignal, referenced by one
  ChannelIndex, is written: both arrays of the signal link to the source of the
  ChannelIndex. Read back, the Block has no ChannelIndex at all, so the signal is a
  member of no group.
\<close>

theorem channel_index_is_not_read_back:
  "(case write_block example_externals
              (block_of [one_segment [0], one_segment [0]] [example_channelindex [0]])
              [0 \<mapsto> AnalogSignal two_channel_signal] empty_io of
        Inl e \<Rightarrow> False
      | Inr r \<Rightarrow>
          concat (map (\<lambda>b. map da_sources (b_data_arrays b)) (blocks (nix_file (snd (snd r)))))
            = [[''neo.channelindex.4''], [''neo.channelindex.4'']]
          \<and> (case fst (read_block example_externals None None None False (snd (snd r))) of
                Inr (Some b) \<Rightarrow>
                  channel_indexes b = []
                  \<and> map (\<lambda>s. map signal_matrix (analogsignals s)) (segments b)
                      = [[[[1, 2], [3, 4]]], [[[1, 2], [3, 4]]]]
              | _ \<Rightarrow> False))"
  by code_simp

subsection \<open>Identifiers\<close>


lemma same_objects_refl [simp]: "same_objects c c"
  by (simp add: same_objects_def)
















lemma names_kept_refl [simp]: "names_kept h h"
  by (simp add: names_kept_def)

lemma names_kept_named: "names_kept h h' \<Longrightarrow> named_leaf h a \<Longrightarrow> named_leaf h' a"
  by (simp add: names_kept_def named_leaf_def)


lemma names_kept_list: "names_kept h h' \<Longrightarrow> list_all (named_leaf h) as \<Longrightarrow> list_all (named_leaf h') as"
  by (induction as) (auto intro: names_kept_named)

lemma with_annotations_same [simp]: "with_annotations l (leaf_annotations l) = l"
  by (cases l) simp_all

lemma leaf_annotations_with [simp]: "leaf_annotations (with_annotations l an) = an"
  by (cases l) simp_all










lemma names_kept_segment:
  "names_kept h h' \<Longrightarrow> named_segment h s \<Longrightarrow> named_segment h' s"
  by (auto simp: named_segment_def intro: names_kept_list)

lemma names_kept_segments:
  "names_kept h h' \<Longrightarrow> list_all (named_segment h) ss \<Longrightarrow> list_all (named_segment h') ss"
  by (induction ss) (auto intro: names_kept_segment)











subsection \<open>Writing a graph twice\<close>




end
